theory Spec2Isabelle
  imports Main "HOL-Library.Sublist" "HOL-Library.AList"
begin

section \<open>Values, strings and errors\<close>

text \<open>
  The module under study is \<^verbatim>\<open>lib/ansible/module_utils/eos_local.py\<close>: two transport
  adapters for an Arista EOS device, \<^verbatim>\<open>Cli\<close> (interactive shell) and \<^verbatim>\<open>Eapi\<close>
  (JSON-RPC over HTTP), and the module-level helpers \<^verbatim>\<open>is_json\<close> and \<^verbatim>\<open>is_text\<close>.

  Values decoded from JSON are Python dicts, lists, strings, numbers, booleans and None.
  Numbers are integers here (no float is read by the code). A dict is the list of its
  items; a key is looked up with \<open>map_of\<close>.
\<close>

datatype json =
    JNull
  | JBool bool
  | JNum int
  | JStr string
  | JList "json list"
  | JDict "(string \<times> json) list"

text \<open>
  Python exceptions as values. \<^verbatim>\<open>module.fail_json(**kwargs)\<close> ends the run (it exits the
  process); \<open>FailJson\<close> carries its keyword arguments.
\<close>

datatype error =
    FailJson "(string \<times> json) list"
  | NameError string
  | AttributeError string
  | UnboundLocalError string
  | UnicodeEncodeError
  | KeyError string
  | IndexError
  | TypeError

text \<open>
  Strings are lists of characters, a character being a code point below 256 (a byte of a
  byte string, a Latin-1 character of a text string); text with code points beyond that
  is outside the model.

  \<^verbatim>\<open>s.strip()\<close> without arguments removes leading and trailing whitespace, and what
  counts as whitespace depends on the type of \<open>s\<close>. For a text string (\<^verbatim>\<open>str\<close> of Python 3,
  \<^verbatim>\<open>unicode\<close> of Python 2, hence every string decoded from JSON) it is what \<^verbatim>\<open>isspace\<close>
  accepts: TAB, LF, VT, FF, CR, FS, GS, RS, US, space, NEL (0x85) and the no-break space
  (0xA0). For a byte string (\<^verbatim>\<open>str\<close> of Python 2) it is TAB, LF, VT, FF, CR and space only.
  The native string type \<^verbatim>\<open>str\<close> is the one or the other with the interpreter.
\<close>

datatype python = Python2 | Python3

definition isspace_text :: "char \<Rightarrow> bool" where
  "isspace_text c = (c \<in> set [CHR 0x09, CHR 0x0A, CHR 0x0B, CHR 0x0C, CHR 0x0D,
                               CHR 0x1C, CHR 0x1D, CHR 0x1E, CHR 0x1F, CHR 0x20,
                               CHR 0x85, CHR 0xA0])"

definition isspace_bytes :: "char \<Rightarrow> bool" where
  "isspace_bytes c = (c \<in> set [CHR 0x09, CHR 0x0A, CHR 0x0B, CHR 0x0C, CHR 0x0D, CHR 0x20])"

definition str_isspace :: "python \<Rightarrow> char \<Rightarrow> bool" where
  "str_isspace py = (case py of Python2 \<Rightarrow> isspace_bytes | Python3 \<Rightarrow> isspace_text)"

definition strip :: "(char \<Rightarrow> bool) \<Rightarrow> string \<Rightarrow> string" where
  "strip ws s = rev (dropWhile ws (rev (dropWhile ws s)))"

text \<open>\<^verbatim>\<open>s.endswith(suf)\<close> compares the last \<open>len(suf)\<close> characters of \<open>s\<close> with \<open>suf\<close>.\<close>

definition endswith :: "string \<Rightarrow> string \<Rightarrow> bool" where
  "endswith s suf = (length suf \<le> length s \<and> drop (length s - length suf) s = suf)"

text \<open>
  Lines 431-432:
  \<^verbatim>\<open>
  is_json = lambda x: str(x).endswith('| json')
  is_text = lambda x: not str(x).endswith('| json')
  \<close>
  Commands are strings, on which \<^verbatim>\<open>str\<close> is the identity.
\<close>

definition is_json :: "string \<Rightarrow> bool" where
  "is_json x = endswith x ''| json''"

definition is_text :: "string \<Rightarrow> bool" where
  "is_text x = (\<not> endswith x ''| json'')"

text \<open>
  \<^verbatim>\<open>to_list\<close> is imported from \<^verbatim>\<open>ansible.module_utils.network_common\<close>; on a list it
  returns a fresh copy of it. Command sequences are lists in this model, so the copy is the
  same value, and the callers' own list is never mutated through it.
\<close>

definition to_list :: "'a list \<Rightarrow> 'a list" where
  "to_list val = val"

text \<open>
  Subscripting a decoded value with a string key (\<^verbatim>\<open>v['output']\<close>): a dict answers or
  raises KeyError, every other value raises TypeError. \<^verbatim>\<open>v.strip()\<close> exists on strings
  only; a decoded string is a text string.
\<close>

fun subscript :: "json \<Rightarrow> string \<Rightarrow> error + json" where
  "subscript (JDict d) k = (case map_of d k of None \<Rightarrow> Inl (KeyError k) | Some v \<Rightarrow> Inr v)"
| "subscript _ k = Inl TypeError"

fun strip_method :: "json \<Rightarrow> error + json" where
  "strip_method (JStr s) = Inr (JStr (strip isspace_text s))"
| "strip_method _ = Inl (AttributeError ''strip'')"

section \<open>The RPC transport (class Eapi)\<close>

subsection \<open>Requests, replies and the device\<close>

text \<open>
  \<^verbatim>\<open>_request_builder\<close> (lines 287-289) builds
  \<^verbatim>\<open>dict(jsonrpc='2.0', id=reqid, method='runCmds',
       params=dict(version=1, cmds=commands, format=output))\<close>.
\<close>

record request =
  jsonrpc :: string
  rq_id :: "string option"
  rq_method :: string
  rq_version :: nat
  cmds :: "string list"
  format :: "string option"

definition request_builder :: "string list \<Rightarrow> string option \<Rightarrow> string option \<Rightarrow> request" where
  "request_builder commands output reqid =
     \<lparr>jsonrpc = ''2.0'', rq_id = reqid, rq_method = ''runCmds'', rq_version = 1,
      cmds = commands, format = output\<rparr>"

text \<open>
  The device is an external collaborator, reached through \<^verbatim>\<open>fetch_url\<close>. What comes back
  is the HTTP status and, when the body is read, either text that \<^verbatim>\<open>from_json\<close> rejects
  (ValueError) or a decoded JSON-RPC 2.0 reply object. Such a reply has exactly one of the
  members \<^verbatim>\<open>result\<close> (a list, one entry per command) and \<^verbatim>\<open>error\<close> (an object with
  \<^verbatim>\<open>message\<close> and \<^verbatim>\<open>code\<close>); \<^verbatim>\<open>'result' in response\<close> and \<^verbatim>\<open>'error' in response\<close> are the
  two cases of \<open>response\<close>.
\<close>

datatype response =
    Result "json list"
  | Error (message: string) (code: int)

datatype payload =
    Garbled string
  | Decoded response

record reply =
  status :: int
  payload :: payload

text \<open>
  The device has a state of its own (\<open>'d\<close>), which every request may change. The world
  seen by the adapter is that state and the exchanges made so far, in order; the latter is
  what "requests issued" counts.
\<close>

type_synonym 'd fetch = "'d \<Rightarrow> request \<Rightarrow> reply \<times> 'd"

record 'd world =
  dev :: 'd
  wire :: "(request \<times> reply) list"

subsection \<open>The adapter object\<close>

text \<open>
  \<^verbatim>\<open>module.params\<close>, as far as the adapter reads it. A parameter that was not given is
  None.
\<close>

record params =
  host :: "string option"
  port :: "int option"
  username :: "string option"
  password :: "string option"
  auth_pass :: "string option"
  use_ssl :: "bool option"
  timeout :: "int option"

text \<open>
  \<^verbatim>\<open>self._enable\<close> after \<^verbatim>\<open>__init__\<close> is either the dict
  \<^verbatim>\<open>{'cmd': 'enable', 'input': auth_pass}\<close> or the string \<^verbatim>\<open>'enable'\<close> (lines 282-285);
  before that it is None (line 261).
\<close>

datatype enable = EnableInput string | EnablePlain

record eapi =
  e_module :: params
  e_enable :: "enable option"
  e_session_support :: "bool option"
  e_device_config :: "(string \<times> string) list"
  e_url :: "string \<times> string option \<times> int"
  e_dict :: "(string \<times> (string \<times> string) list) list"

text \<open>
  The fields are the five attributes \<^verbatim>\<open>__init__\<close> binds (\<^verbatim>\<open>_module\<close>, \<^verbatim>\<open>_enable\<close>,
  \<^verbatim>\<open>_session_support\<close>, \<^verbatim>\<open>_device_config\<close>, \<^verbatim>\<open>_url\<close>). \<open>e_dict\<close> holds every other
  attribute bound on the instance, by name, each a dict from strings to strings; a name
  absent from it is not an attribute of the object, and reading it raises AttributeError.
  The URL is kept as the three values formatted into it (scheme, host, port).
\<close>

definition truthy_str :: "string option \<Rightarrow> bool" where
  "truthy_str v = (case v of None \<Rightarrow> False | Some s \<Rightarrow> s \<noteq> [])"

definition truthy_int :: "int option \<Rightarrow> bool" where
  "truthy_int v = (case v of None \<Rightarrow> False | Some n \<Rightarrow> n \<noteq> 0)"

definition truthy_bool :: "bool option \<Rightarrow> bool" where
  "truthy_bool v = (case v of None \<Rightarrow> False | Some b \<Rightarrow> b)"

text \<open>A dict with two entries and a non-empty string are both true in a condition.\<close>

definition truthy_enable :: "enable option \<Rightarrow> bool" where
  "truthy_enable v = (case v of None \<Rightarrow> False | Some _ \<Rightarrow> True)"

text \<open>
  Lines 259-285, \<^verbatim>\<open>Eapi.__init__\<close>. The copies it stores under \<^verbatim>\<open>url_username\<close> and
  \<^verbatim>\<open>url_password\<close> are read by \<^verbatim>\<open>fetch_url\<close> only and are left out.
\<close>

definition Eapi_init :: "params \<Rightarrow> eapi" where
  "Eapi_init p =
     (let proto = (if truthy_bool (use_ssl p) then ''https'' else ''http'');
          prt = (if truthy_int (port p) then the (port p)
                 else if truthy_bool (use_ssl p) then 443 else 80)
      in \<lparr>e_module = p,
          e_enable = (if truthy_str (auth_pass p) then Some (EnableInput (the (auth_pass p)))
                      else Some EnablePlain),
          e_session_support = None,
          e_device_config = [],
          e_url = (proto, host p, prt),
          e_dict = []\<rparr>)"

subsection \<open>send_request\<close>

text \<open>
  Lines 291-320. The request is posted once; a status other than 200 and an undecodable
  body both end in \<^verbatim>\<open>fail_json\<close> (of the \<^verbatim>\<open>info\<close> dict only the status is kept here).
  With \<^verbatim>\<open>self._enable\<close> true, the string \<^verbatim>\<open>'enable'\<close> goes in front of the commands, and
  the first entry of a \<^verbatim>\<open>result\<close> is popped (\<^verbatim>\<open>pop(0)\<close> on an empty list raises
  IndexError).
\<close>

definition Eapi_send_request ::
  "'d fetch \<Rightarrow> eapi \<Rightarrow> string list \<Rightarrow> string option \<Rightarrow> 'd world \<Rightarrow> (error + response) \<times> 'd world"
where
  "Eapi_send_request fetch self commands output w =
     (let commands = (if truthy_enable (e_enable self) then ''enable'' # to_list commands
                      else to_list commands);
          body = request_builder commands output None;
          (rep, d) = fetch (dev w) body;
          w' = \<lparr>dev = d, wire = wire w @ [(body, rep)]\<rparr>
      in if status rep \<noteq> 200 then (Inl (FailJson [(''status'', JNum (status rep))]), w')
         else case payload rep of
           Garbled data \<Rightarrow>
             (Inl (FailJson [(''msg'', JStr ''unable to load response from device''),
                             (''data'', JStr data)]), w')
         | Decoded (Error m c) \<Rightarrow> (Inr (Error m c), w')
         | Decoded (Result rs) \<Rightarrow>
             if truthy_enable (e_enable self) then
               (case rs of [] \<Rightarrow> (Inl IndexError, w') | r # rest \<Rightarrow> (Inr (Result rest), w'))
             else (Inr (Result rs), w'))"

subsection \<open>run_commands\<close>

text \<open>
  Lines 329-334, the local function \<^verbatim>\<open>_send\<close>: one request; an \<^verbatim>\<open>error\<close> member ends the
  run with the device's message and code, otherwise the \<^verbatim>\<open>result\<close> list is returned.
\<close>

definition run_commands_send ::
  "'d fetch \<Rightarrow> eapi \<Rightarrow> string list \<Rightarrow> string option \<Rightarrow> 'd world \<Rightarrow> (error + json list) \<times> 'd world"
where
  "run_commands_send fetch self commands output w =
     (case Eapi_send_request fetch self commands output w of
        (Inl e, w') \<Rightarrow> (Inl e, w')
      | (Inr (Error m c), w') \<Rightarrow> (Inl (FailJson [(''msg'', JStr m), (''code'', JNum c)]), w')
      | (Inr (Result rs), w') \<Rightarrow> (Inr rs, w'))"

text \<open>
  Lines 336-346, the first loop. The state is \<^verbatim>\<open>output\<close> (None before the first item),
  \<^verbatim>\<open>queue\<close> and \<^verbatim>\<open>responses\<close>. An exception leaves the loop at once.
\<close>

fun run_commands_loop ::
  "'d fetch \<Rightarrow> eapi \<Rightarrow> string list \<Rightarrow> string option \<Rightarrow> string list \<Rightarrow> json list \<Rightarrow> 'd world
    \<Rightarrow> (error + string option \<times> string list \<times> json list) \<times> 'd world"
where
  "run_commands_loop fetch self [] output queue responses w =
     (Inr (output, queue, responses), w)"
| "run_commands_loop fetch self (item # items) output queue responses w =
     (if (output = Some ''json'' \<and> is_text item) \<or> (output = Some ''text'' \<and> is_json item) then
        (case run_commands_send fetch self queue output w of
           (Inl e, w') \<Rightarrow> (Inl e, w')
         | (Inr rs, w') \<Rightarrow>
             run_commands_loop fetch self items
               (if is_json item then Some ''json'' else Some ''text'') [item] (responses @ rs) w')
      else
        run_commands_loop fetch self items
          (if is_json item then Some ''json'' else Some ''text'') (queue @ [item]) responses w)"

text \<open>
  Lines 351-353, the second loop, over \<^verbatim>\<open>enumerate(commands)\<close>:
  \<^verbatim>\<open>responses[index] = responses[index]['output'].strip()\<close> for every text item. An index
  past the end of \<^verbatim>\<open>responses\<close> raises IndexError.
\<close>

fun run_commands_unwrap :: "nat \<Rightarrow> string list \<Rightarrow> json list \<Rightarrow> error + json list" where
  "run_commands_unwrap index [] responses = Inr responses"
| "run_commands_unwrap index (item # items) responses =
     (if is_text item then
        (if length responses \<le> index then Inl IndexError
         else case subscript (responses ! index) ''output'' of
           Inl e \<Rightarrow> Inl e
         | Inr v \<Rightarrow>
             (case strip_method v of
                Inl e \<Rightarrow> Inl e
              | Inr s \<Rightarrow> run_commands_unwrap (Suc index) items (responses[index := s])))
      else run_commands_unwrap (Suc index) items responses)"

text \<open>Lines 336-349: the first loop and the flush of what is left in the queue.\<close>

definition run_commands_collect ::
  "'d fetch \<Rightarrow> eapi \<Rightarrow> string list \<Rightarrow> 'd world \<Rightarrow> (error + json list) \<times> 'd world"
where
  "run_commands_collect fetch self commands w =
     (case run_commands_loop fetch self (to_list commands) None [] [] w of
        (Inl e, w') \<Rightarrow> (Inl e, w')
      | (Inr (output, queue, responses), w') \<Rightarrow>
          if queue \<noteq> [] then
            (case run_commands_send fetch self queue output w' of
               (Inl e, w'') \<Rightarrow> (Inl e, w'')
             | (Inr rs, w'') \<Rightarrow> (Inr (responses @ rs), w''))
          else (Inr responses, w'))"

text \<open>Lines 322-355, \<^verbatim>\<open>Eapi.run_commands\<close>.\<close>

definition Eapi_run_commands ::
  "'d fetch \<Rightarrow> eapi \<Rightarrow> string list \<Rightarrow> 'd world \<Rightarrow> (error + json list) \<times> 'd world"
where
  "Eapi_run_commands fetch self commands w =
     (case run_commands_collect fetch self commands w of
        (Inl e, w') \<Rightarrow> (Inl e, w')
      | (Inr responses, w') \<Rightarrow> (run_commands_unwrap 0 commands responses, w'))"

subsection \<open>get_config\<close>

text \<open>\<^verbatim>\<open>sep.join(parts)\<close>.\<close>

fun join :: "string \<Rightarrow> string list \<Rightarrow> string" where
  "join sep [] = []"
| "join sep [x] = x"
| "join sep (x # y # ys) = x @ sep @ join sep (y # ys)"

text \<open>
  \<^verbatim>\<open>str(v)\<close> of a decoded value. A string is returned as it is by Python 3; Python 2
  encodes the text string to a byte string with the ASCII codec, which raises
  UnicodeEncodeError on a character from 128 on. For every other value the result is
  Python's rendering of it, which is taken as a parameter.
\<close>

definition is_ascii :: "char \<Rightarrow> bool" where
  "is_ascii c = ((of_char c :: nat) < 128)"

definition py_str :: "python \<Rightarrow> (json \<Rightarrow> string) \<Rightarrow> json \<Rightarrow> error + string" where
  "py_str py repr v =
     (case v of
        JStr s \<Rightarrow>
          (case py of
             Python3 \<Rightarrow> Inr s
           | Python2 \<Rightarrow> if list_all is_ascii s then Inr s else Inl UnicodeEncodeError)
      | _ \<Rightarrow> Inr (repr v))"

text \<open>
  Lines 357-370, \<^verbatim>\<open>Eapi.get_config\<close>. The cache is read from the attribute
  \<^verbatim>\<open>self._device_configs\<close>. \<^verbatim>\<open>__init__\<close> binds \<^verbatim>\<open>self._device_config\<close> (line 263), which is
  another name: the attribute read here is looked up among the other attributes of the
  instance (\<open>e_dict\<close>), and a missing attribute raises AttributeError, which
  \<^verbatim>\<open>except KeyError\<close> does not catch. With the attribute bound, a missing key leads to one
  request for the single command, whose first result entry is unwrapped, stripped and
  stored under the key.
\<close>

definition Eapi_get_config ::
  "'d fetch \<Rightarrow> python \<Rightarrow> (json \<Rightarrow> string) \<Rightarrow> eapi \<Rightarrow> string list \<Rightarrow> 'd world
     \<Rightarrow> (error + string) \<times> eapi \<times> 'd world"
where
  "Eapi_get_config fetch py repr self flags w =
     (let cmd = strip (str_isspace py) (''show running-config '' @ join '' '' flags) in
      case map_of (e_dict self) ''_device_configs'' of
        None \<Rightarrow> (Inl (AttributeError ''_device_configs''), self, w)
      | Some configs \<Rightarrow>
          (case map_of configs cmd of
             Some cfg \<Rightarrow> (Inr cfg, self, w)
           | None \<Rightarrow>
               (case Eapi_send_request fetch self [cmd] (Some ''text'') w of
                  (Inl e, w') \<Rightarrow> (Inl e, self, w')
                | (Inr (Error m c), w') \<Rightarrow> (Inl (KeyError ''result''), self, w')
                | (Inr (Result []), w') \<Rightarrow> (Inl IndexError, self, w')
                | (Inr (Result (r # rest)), w') \<Rightarrow>
                    (case subscript r ''output'' of
                       Inl e \<Rightarrow> (Inl e, self, w')
                     | Inr v \<Rightarrow>
                         (case py_str py repr v of
                            Inl e \<Rightarrow> (Inl e, self, w')
                          | Inr text \<Rightarrow>
                              (let cfg = strip (str_isspace py) text in
                               (Inr cfg,
                                self\<lparr>e_dict := AList.update ''_device_configs''
                                                    (AList.update cmd cfg configs) (e_dict self)\<rparr>,
                                w')))))))"

section \<open>Names of the module\<close>

text \<open>
  A bare name in a method body is looked up among the function's locals, then in the
  module's namespace, then among the builtins; the attributes of the class are not in
  scope. The namespace is modelled as the list of its bindings. What matters of a bound
  object is whether it is a dict from strings to strings or anything else (a function, a
  class, a module, the connection). \<open>module_namespace\<close> lists the names the file binds at
  its top level: its imports (lines 30-39), \<^verbatim>\<open>_DEVICE_CONNECTION\<close>,
  \<^verbatim>\<open>eos_local_argument_spec\<close>, the functions \<^verbatim>\<open>check_args\<close>, \<^verbatim>\<open>load_params\<close>,
  \<^verbatim>\<open>get_connection\<close>, the two classes, \<^verbatim>\<open>is_json\<close>, \<^verbatim>\<open>is_text\<close>, and the three entry
  points of lines 434-444. None of the names looked up below is a builtin.
\<close>

datatype gval = GDict "(string \<times> string) list" | GOther

type_synonym namespace = "(string \<times> gval) list"

definition module_namespace :: namespace where
  "module_namespace = map (\<lambda>n. (n, GOther))
     [''re'', ''time'', ''CliBase'', ''env_fallback'', ''get_exception'', ''to_list'',
      ''Command'', ''iteritems'', ''NetworkError'', ''fetch_url'', ''_DEVICE_CONNECTION'',
      ''eos_local_argument_spec'', ''check_args'', ''load_params'', ''get_connection'',
      ''Cli'', ''Eapi'', ''is_json'', ''is_text'', ''get_config'', ''run_commands'',
      ''load_config'']"

definition load_name :: "namespace \<Rightarrow> string \<Rightarrow> error + gval" where
  "load_name g n = (case map_of g n of None \<Rightarrow> Inl (NameError n) | Some v \<Rightarrow> Inr v)"

text \<open>
  A name in call position: an unbound name raises NameError and a dict is not callable.
  Where a namespace does bind one of the names \<^verbatim>\<open>check_authorization\<close>,
  \<^verbatim>\<open>supports_sessions\<close>, \<^verbatim>\<open>configure\<close> and \<^verbatim>\<open>send_config\<close> to another object, the call
  is read as the call of the adapter's own method of that name; \<open>module_namespace\<close> binds
  none of them.
\<close>

definition load_callable :: "namespace \<Rightarrow> string \<Rightarrow> error + unit" where
  "load_callable g n =
     (case load_name g n of
        Inl e \<Rightarrow> Inl e
      | Inr (GDict d) \<Rightarrow> Inl TypeError
      | Inr GOther \<Rightarrow> Inr ())"

section \<open>Loading a configuration over the RPC transport\<close>

text \<open>Truth of a decoded value in a condition (\<^verbatim>\<open>if diff:\<close>).\<close>

fun truthy_json :: "json \<Rightarrow> bool" where
  "truthy_json JNull = False"
| "truthy_json (JBool b) = b"
| "truthy_json (JNum n) = (n \<noteq> 0)"
| "truthy_json (JStr s) = (s \<noteq> [])"
| "truthy_json (JList xs) = (xs \<noteq> [])"
| "truthy_json (JDict d) = (d \<noteq> [])"

text \<open>
  Lines 372-377, \<^verbatim>\<open>Eapi.supports_sessions\<close>: a remembered True is returned at once;
  otherwise the device is probed and the answer remembered.
\<close>

definition Eapi_supports_sessions ::
  "'d fetch \<Rightarrow> eapi \<Rightarrow> 'd world \<Rightarrow> (error + bool) \<times> eapi \<times> 'd world"
where
  "Eapi_supports_sessions fetch self w =
     (if truthy_bool (e_session_support self) then (Inr True, self, w)
      else case Eapi_send_request fetch self [''show configuration sessions''] (Some ''text'') w of
        (Inl e, w') \<Rightarrow> (Inl e, self, w')
      | (Inr (Error m c), w') \<Rightarrow> (Inr False, self\<lparr>e_session_support := Some False\<rparr>, w')
      | (Inr (Result rs), w') \<Rightarrow> (Inr True, self\<lparr>e_session_support := Some True\<rparr>, w'))"

text \<open>
  Lines 392-429, \<^verbatim>\<open>Eapi.load_config\<close>. \<open>stamp\<close> is the decimal rendering of
  \<^verbatim>\<open>int(time.time())\<close>. Line 399 calls the bare name \<^verbatim>\<open>supports_sessions\<close> and line 400
  the bare name \<^verbatim>\<open>configure\<close>, on the variable \<^verbatim>\<open>commands\<close>, which is a local of the function
  (lines 404, 413, 418) with no value yet at line 400; the parameter is \<^verbatim>\<open>config\<close>. The
  result dict is the list of its items.
\<close>

definition Eapi_load_config ::
  "'d fetch \<Rightarrow> namespace \<Rightarrow> string \<Rightarrow> eapi \<Rightarrow> string list \<Rightarrow> bool \<Rightarrow> bool \<Rightarrow> 'd world
     \<Rightarrow> (error + (string \<times> json) list) \<times> eapi \<times> 'd world"
where
  "Eapi_load_config fetch g stamp self config commit replace w =
     (case load_callable g ''supports_sessions'' of
        Inl e \<Rightarrow> (Inl e, self, w)
      | Inr _ \<Rightarrow>
          (case Eapi_supports_sessions fetch self w of
             (Inl e, self1, w1) \<Rightarrow> (Inl e, self1, w1)
           | (Inr False, self1, w1) \<Rightarrow>
               (case load_callable g ''configure'' of
                  Inl e \<Rightarrow> (Inl e, self1, w1)
                | Inr _ \<Rightarrow> (Inl (UnboundLocalError ''commands''), self1, w1))
           | (Inr True, self1, w1) \<Rightarrow>
               (let session = ''ansible_'' @ stamp;
                    commands = [''configure session '' @ session]
                                 @ (if replace then [''rollback clean-config''] else []) @ config
                in case Eapi_send_request fetch self1 commands (Some ''text'') w1 of
                  (Inl e, w2) \<Rightarrow> (Inl e, self1, w2)
                | (Inr (Error m c), w2) \<Rightarrow>
                    (case Eapi_send_request fetch self1
                            [''configure session '' @ session, ''abort''] (Some ''text'') w2 of
                       (Inl e, w3) \<Rightarrow> (Inl e, self1, w3)
                     | (Inr r, w3) \<Rightarrow>
                         (Inl (FailJson [(''msg'', JStr m), (''code'', JNum c)]), self1, w3))
                | (Inr (Result rs), w2) \<Rightarrow>
                    (case Eapi_send_request fetch self1
                            ([''configure session '' @ session, ''show session-config diffs'']
                               @ [if commit then ''commit'' else ''abort''])
                            (Some ''text'') w2 of
                       (Inl e, w3) \<Rightarrow> (Inl e, self1, w3)
                     | (Inr (Error m c), w3) \<Rightarrow> (Inl (KeyError ''result''), self1, w3)
                     | (Inr (Result rs'), w3) \<Rightarrow>
                         if length rs' \<le> 1 then (Inl IndexError, self1, w3)
                         else (case subscript (rs' ! 1) ''output'' of
                                 Inl e \<Rightarrow> (Inl e, self1, w3)
                               | Inr diff \<Rightarrow>
                                   (Inr ([(''session'', JStr session)]
                                           @ (if truthy_json diff then [(''diff'', diff)] else [])),
                                    self1, w3))))))"

section \<open>The interactive transport (class Cli)\<close>

text \<open>
  \<^verbatim>\<open>exec_command\<close> is inherited from \<^verbatim>\<open>CliBase\<close> (\<^verbatim>\<open>ansible.module_utils.shell\<close>), which is
  not part of the file: it sends one command to the shell and returns the triple
  \<^verbatim>\<open>(rc, out, err)\<close>. The device behind it is a parameter, with a state of its own; the
  shell keeps the transcript of what was sent and answered; \<^verbatim>\<open>out\<close> and \<^verbatim>\<open>err\<close> are native
  strings (\<^verbatim>\<open>str\<close>), on which \<^verbatim>\<open>str\<close> is the identity. A command is a plain string
  or the \<^verbatim>\<open>jsonify\<close>-ed dict \<^verbatim>\<open>{'command': c, 'sendonly': True}\<close>. The connection singleton
  is taken as established, so that \<^verbatim>\<open>get_connection(self)\<close> returns it without effect.
\<close>

datatype command = Plain string | SendOnly string

type_synonym 'd exec = "'d \<Rightarrow> command \<Rightarrow> (int \<times> string \<times> string) \<times> 'd"

record 'd shell =
  sdev :: 'd
  transcript :: "(command \<times> int \<times> string \<times> string) list"

definition exec_command ::
  "'d exec \<Rightarrow> command \<Rightarrow> 'd shell \<Rightarrow> (int \<times> string \<times> string) \<times> 'd shell"
where
  "exec_command exec c sh =
     (let (res, d) = exec (sdev sh) c
      in (res, \<lparr>sdev = d, transcript = transcript sh @ [(c, res)]\<rparr>))"

text \<open>
  Lines 141-157, \<^verbatim>\<open>Cli.get_config\<close>. The cache is the module-level name
  \<^verbatim>\<open>_DEVICE_CONFIGS\<close>; an unbound name raises NameError, which \<^verbatim>\<open>except KeyError\<close> does not
  catch, and an object that is no dict cannot be subscripted by the key.
\<close>

definition Cli_get_config ::
  "'d exec \<Rightarrow> python \<Rightarrow> namespace \<Rightarrow> string list \<Rightarrow> 'd shell
     \<Rightarrow> (error + string) \<times> namespace \<times> 'd shell"
where
  "Cli_get_config exec py g flags sh =
     (let cmd = strip (str_isspace py) (''show running-config '' @ join '' '' flags) in
      case load_name g ''_DEVICE_CONFIGS'' of
        Inl e \<Rightarrow> (Inl e, g, sh)
      | Inr GOther \<Rightarrow> (Inl TypeError, g, sh)
      | Inr (GDict configs) \<Rightarrow>
          (case map_of configs cmd of
             Some cfg \<Rightarrow> (Inr cfg, g, sh)
           | None \<Rightarrow>
               (case exec_command exec (Plain cmd) sh of
                  ((rc, out, err), sh') \<Rightarrow>
                    if rc \<noteq> 0 then (Inl (FailJson [(''msg'', JStr err)]), g, sh')
                    else (let cfg = strip (str_isspace py) out in
                          (Inr cfg,
                           AList.update ''_DEVICE_CONFIGS'' (GDict (AList.update cmd cfg configs)) g,
                           sh')))))"

text \<open>
  Lines 159-176, \<^verbatim>\<open>Cli.run_commands\<close>. \<^verbatim>\<open>from_json\<close> belongs to the host framework
  (\<^verbatim>\<open>json.loads\<close>); it is a parameter that answers None where Python raises ValueError.
  Lines 170-173 are \<open>run_commands_decode\<close>: \<^verbatim>\<open>str(out).strip()\<close> strips the whitespace of
  the native string type.
\<close>

definition run_commands_decode ::
  "(string \<Rightarrow> json option) \<Rightarrow> python \<Rightarrow> string \<Rightarrow> json"
where
  "run_commands_decode from_json py out =
     (case from_json out of Some v \<Rightarrow> v | None \<Rightarrow> JStr (strip (str_isspace py) out))"

fun Cli_run_commands_loop ::
  "'d exec \<Rightarrow> (string \<Rightarrow> json option) \<Rightarrow> python \<Rightarrow> bool \<Rightarrow> string list \<Rightarrow> json list
     \<Rightarrow> 'd shell \<Rightarrow> (error + json list) \<times> 'd shell"
where
  "Cli_run_commands_loop exec from_json py check_rc [] responses sh = (Inr responses, sh)"
| "Cli_run_commands_loop exec from_json py check_rc (cmd # rest) responses sh =
     (case exec_command exec (Plain cmd) sh of
        ((rc, out, err), sh') \<Rightarrow>
          if check_rc \<and> rc \<noteq> 0 then (Inl (FailJson [(''msg'', JStr err)]), sh')
          else Cli_run_commands_loop exec from_json py check_rc rest
                 (responses @ [run_commands_decode from_json py out]) sh')"

definition Cli_run_commands ::
  "'d exec \<Rightarrow> (string \<Rightarrow> json option) \<Rightarrow> python \<Rightarrow> string list \<Rightarrow> bool \<Rightarrow> 'd shell
     \<Rightarrow> (error + json list) \<times> 'd shell"
where
  "Cli_run_commands exec from_json py commands check_rc sh =
     Cli_run_commands_loop exec from_json py check_rc (to_list commands) [] sh"

text \<open>Lines 131-134 and 136-139.\<close>

definition Cli_check_authorization :: "'d exec \<Rightarrow> 'd shell \<Rightarrow> bool \<times> 'd shell" where
  "Cli_check_authorization exec sh =
     (case exec_command exec (Plain ''show clock'') sh of
        (r1, sh1) \<Rightarrow>
          (case exec_command exec (Plain ''prompt()'') sh1 of
             ((rc, out, err), sh2) \<Rightarrow> (endswith out ''#'', sh2)))"

definition Cli_supports_sessions :: "'d exec \<Rightarrow> 'd shell \<Rightarrow> bool \<times> 'd shell" where
  "Cli_supports_sessions exec sh =
     (case exec_command exec (Plain ''show configuration sessions'') sh of
        ((rc, out, err), sh') \<Rightarrow> (rc = 0, sh'))"

text \<open>
  Lines 178-193, \<^verbatim>\<open>Cli.send_config\<close>. \<^verbatim>\<open>rc\<close> has no value when the loop never ran, and the
  final \<^verbatim>\<open>return (rc, 'ok', '')\<close> then raises UnboundLocalError.
\<close>

definition startswith :: "string \<Rightarrow> string \<Rightarrow> bool" where
  "startswith s pre = (take (length pre) s = pre)"

fun Cli_send_config_loop ::
  "'d exec \<Rightarrow> string list \<Rightarrow> bool \<Rightarrow> int option \<Rightarrow> 'd shell
     \<Rightarrow> (error + int \<times> string \<times> string) \<times> 'd shell"
where
  "Cli_send_config_loop exec [] multiline last_rc sh =
     (case last_rc of
        None \<Rightarrow> (Inl (UnboundLocalError ''rc''), sh)
      | Some rc \<Rightarrow> (Inr (rc, ''ok'', ''''), sh))"
| "Cli_send_config_loop exec (command # rest) multiline last_rc sh =
     (let (multiline', sent) =
            (if startswith command ''banner'' \<or> multiline then (True, SendOnly command)
             else if command = ''EOF'' \<and> multiline then (False, Plain command)
             else (multiline, Plain command))
      in case exec_command exec sent sh of
        ((rc, out, err), sh') \<Rightarrow>
          if rc \<noteq> 0 then (Inr (rc, out, err), sh')
          else Cli_send_config_loop exec rest multiline' (Some rc) sh')"

definition Cli_send_config ::
  "'d exec \<Rightarrow> string list \<Rightarrow> 'd shell \<Rightarrow> (error + int \<times> string \<times> string) \<times> 'd shell"
where
  "Cli_send_config exec commands sh = Cli_send_config_loop exec (to_list commands) False None sh"

text \<open>Lines 196-213, \<^verbatim>\<open>Cli.configure\<close>; it returns the empty dict.\<close>

definition Cli_configure ::
  "'d exec \<Rightarrow> namespace \<Rightarrow> string list \<Rightarrow> 'd shell \<Rightarrow> (error + (string \<times> json) list) \<times> 'd shell"
where
  "Cli_configure exec g commands sh =
     (case load_callable g ''check_authorization'' of
        Inl e \<Rightarrow> (Inl e, sh)
      | Inr _ \<Rightarrow>
          (case Cli_check_authorization exec sh of
             (authorized, sh1) \<Rightarrow>
               if \<not> authorized then
                 (Inl (FailJson [(''msg'',
                    JStr ''configuration operations require privilege escalation'')]), sh1)
               else
                 (case exec_command exec (Plain ''configure'') sh1 of
                    ((rc, out, err), sh2) \<Rightarrow>
                      if rc \<noteq> 0 then
                        (Inl (FailJson [(''msg'', JStr ''unable to enter configuration mode''),
                                        (''output'', JStr err)]), sh2)
                      else
                        (case load_callable g ''send_config'' of
                           Inl e \<Rightarrow> (Inl e, sh2)
                         | Inr _ \<Rightarrow>
                             (case Cli_send_config exec commands sh2 of
                                (Inl e, sh3) \<Rightarrow> (Inl e, sh3)
                              | (Inr (rc, out, err), sh3) \<Rightarrow>
                                  if rc \<noteq> 0 then (Inl (FailJson [(''msg'', JStr err)]), sh3)
                                  else (case exec_command exec (Plain ''end'') sh3 of
                                          (r, sh4) \<Rightarrow> (Inr [], sh4)))))))"

text \<open>
  Lines 215-255, \<^verbatim>\<open>Cli.load_config\<close>. The first statement calls the bare name
  \<^verbatim>\<open>check_authorization\<close>; line 221 reads the bare name \<^verbatim>\<open>os\<close>, which the file does not
  import. \<open>use_session\<close> is the truth value lines 221-225 derive from the environment
  variable \<^verbatim>\<open>ANSIBLE_EOS_USE_SESSIONS\<close>; both members of the tuple at line 227 are evaluated
  before \<^verbatim>\<open>all\<close> sees them. \<open>stamp\<close> is the decimal rendering of \<^verbatim>\<open>int(time.time())\<close>.

  \<^verbatim>\<open>conn.fail_json\<close> at line 244 is called on the connection object, whose base class
  \<^verbatim>\<open>CliBase\<close> is not in the sources; following section 4.3, step 6 of the specification
  it is taken to fail the run with the device's message and the commands that were
  attempted.
\<close>

definition Cli_load_config ::
  "'d exec \<Rightarrow> python \<Rightarrow> namespace \<Rightarrow> bool \<Rightarrow> string \<Rightarrow> string list \<Rightarrow> bool \<Rightarrow> bool
     \<Rightarrow> 'd shell \<Rightarrow> (error + (string \<times> json) list) \<times> 'd shell"
where
  "Cli_load_config exec py g use_session stamp commands commit replace sh =
     (case load_callable g ''check_authorization'' of
        Inl e \<Rightarrow> (Inl e, sh)
      | Inr _ \<Rightarrow>
     (case Cli_check_authorization exec sh of
        (authorized, sh1) \<Rightarrow>
     if \<not> authorized then
       (Inl (FailJson [(''msg'',
          JStr ''configuration operations require privilege escalation'')]), sh1)
     else
     (case load_name g ''os'' of
        Inl e \<Rightarrow> (Inl e, sh1)
      | Inr (GDict d) \<Rightarrow> (Inl (AttributeError ''getenv''), sh1)
      | Inr GOther \<Rightarrow>
     (case load_callable g ''supports_sessions'' of
        Inl e \<Rightarrow> (Inl e, sh1)
      | Inr _ \<Rightarrow>
     (case Cli_supports_sessions exec sh1 of
        (supported, sh2) \<Rightarrow>
     if \<not> (use_session \<and> supported) then
       (case load_callable g ''configure'' of
          Inl e \<Rightarrow> (Inl e, sh2)
        | Inr _ \<Rightarrow> Cli_configure exec g commands sh2)
     else
     (let session = ''ansible_'' @ stamp in
      case exec_command exec (Plain (''configure session '' @ session)) sh2 of
        ((rc, out, err), sh3) \<Rightarrow>
     if rc \<noteq> 0 then
       (Inl (FailJson [(''msg'', JStr ''unable to enter configuration mode''),
                       (''output'', JStr err)]), sh3)
     else
     (let sh4 = (if replace then snd (exec_command exec (Plain ''rollback clean-config'') sh3)
                 else sh3)
      in case load_callable g ''send_config'' of
        Inl e \<Rightarrow> (Inl e, sh4)
      | Inr _ \<Rightarrow>
     (case Cli_send_config exec commands sh4 of
        (Inl e, sh5) \<Rightarrow> (Inl e, sh5)
      | (Inr (rc, out, err), sh5) \<Rightarrow>
     if rc \<noteq> 0 then
       (case exec_command exec (Plain ''abort'') sh5 of
          (r, sh6) \<Rightarrow>
            (Inl (FailJson [(''msg'', JStr err), (''commands'', JList (map JStr commands))]), sh6))
     else
     (case exec_command exec (Plain ''show session-config diffs'') sh5 of
        ((rc, out, err), sh6) \<Rightarrow>
          (let result = [(''session'', JStr session)]
                          @ (if rc = 0 then [(''diff'', JStr (strip (str_isspace py) out))] else [])
           in case exec_command exec (Plain (if commit then ''commit'' else ''abort'')) sh6 of
             (r, sh7) \<Rightarrow> (Inr result, sh7)))))))))))"

section \<open>Notions used in the statements\<close>

text \<open>The format tag a command asks for: what \<^verbatim>\<open>output\<close> is set to at lines 341-344.\<close>

definition fmt :: "string \<Rightarrow> string" where
  "fmt item = (if is_json item then ''json'' else ''text'')"

text \<open>
  The number of adjacent format transitions of a command sequence: the neighbours
  \<open>a, b\<close> of which one is a structured command and the other is not.
\<close>

fun transitions :: "string list \<Rightarrow> nat" where
  "transitions (a # b # cs) = (if is_json a = is_json b then 0 else 1) + transitions (b # cs)"
| "transitions _ = 0"

text \<open>The exchanges made between two worlds, the later one extending the earlier.\<close>

definition exchanges :: "'d world \<Rightarrow> 'd world \<Rightarrow> (request \<times> reply) list" where
  "exchanges w w' = drop (length (wire w)) (wire w')"

text \<open>
  Of one exchange: the commands the caller submitted (the request's commands without the
  \<^verbatim>\<open>enable\<close> put in front of them), the entries the caller is given back (the reply's
  \<^verbatim>\<open>result\<close> without the entry popped for \<^verbatim>\<open>enable\<close>), whether the reply was read and
  carries an \<^verbatim>\<open>error\<close> member, and the failure that member is turned into.
\<close>

definition submitted :: "eapi \<Rightarrow> request \<times> reply \<Rightarrow> string list" where
  "submitted self x = (if truthy_enable (e_enable self) then tl (cmds (fst x)) else cmds (fst x))"

definition delivered :: "eapi \<Rightarrow> request \<times> reply \<Rightarrow> json list" where
  "delivered self x =
     (case payload (snd x) of
        Decoded (Result rs) \<Rightarrow> (if truthy_enable (e_enable self) then tl rs else rs)
      | _ \<Rightarrow> [])"

definition rejected :: "request \<times> reply \<Rightarrow> bool" where
  "rejected x =
     (status (snd x) = 200 \<and> (case payload (snd x) of Decoded (Error m c) \<Rightarrow> True | _ \<Rightarrow> False))"

definition device_error :: "request \<times> reply \<Rightarrow> error" where
  "device_error x =
     (case payload (snd x) of
        Decoded (Error m c) \<Rightarrow> FailJson [(''msg'', JStr m), (''code'', JNum c)]
      | _ \<Rightarrow> TypeError)"

text \<open>The entries given back to the caller in the exchanges between two worlds, in order.\<close>

definition collected :: "eapi \<Rightarrow> 'd world \<Rightarrow> 'd world \<Rightarrow> json list" where
  "collected self w w' = concat (map (delivered self) (exchanges w w'))"

text \<open>
  The two halves of \<open>Eapi_send_request\<close>: the request it posts, and what it makes of the
  reply (lines 308-320).
\<close>

definition posted :: "eapi \<Rightarrow> string list \<Rightarrow> string option \<Rightarrow> request" where
  "posted self commands output =
     request_builder
       (if truthy_enable (e_enable self) then ''enable'' # commands else commands) output None"

definition decode_reply :: "eapi \<Rightarrow> reply \<Rightarrow> error + response" where
  "decode_reply self rep =
     (if status rep \<noteq> 200 then Inl (FailJson [(''status'', JNum (status rep))])
      else case payload rep of
        Garbled data \<Rightarrow>
          Inl (FailJson [(''msg'', JStr ''unable to load response from device''),
                         (''data'', JStr data)])
      | Decoded (Error m c) \<Rightarrow> Inr (Error m c)
      | Decoded (Result rs) \<Rightarrow>
          if truthy_enable (e_enable self) then
            (case rs of [] \<Rightarrow> Inl IndexError | r # rest \<Rightarrow> Inr (Result rest))
          else Inr (Result rs))"

text \<open>What was sent to the shell, and answered, between two states of it.\<close>

definition said :: "'d shell \<Rightarrow> 'd shell \<Rightarrow> (command \<times> int \<times> string \<times> string) list" where
  "said sh sh' = drop (length (transcript sh)) (transcript sh')"

section \<open>A sample device\<close>

text \<open>
  A device to run the adapter against: it counts the requests it has served, rejects a
  request that holds the command \<^verbatim>\<open>bogus\<close> with a JSON-RPC error, and otherwise answers
  every command of the request, \<^verbatim>\<open>enable\<close> included, with one entry (for the text format
  an \<^verbatim>\<open>output\<close> mapping whose string starts with a no-break space and ends with a line
  feed).
\<close>

definition demo_answer :: "string option \<Rightarrow> string \<Rightarrow> json" where
  "demo_answer output c =
     (if output = Some ''json'' then JDict [(''command'', JStr c)]
      else JDict [(''output'', JStr (CHR 0xA0 # '' '' @ c @ ''\<newline>''))])"

definition demo_device :: "nat fetch" where
  "demo_device n rq =
     (if ''bogus'' \<in> set (cmds rq)
      then (\<lparr>status = 200, payload = Decoded (Error ''invalid command'' 1002)\<rparr>, Suc n)
      else (\<lparr>status = 200, payload = Decoded (Result (map (demo_answer (format rq)) (cmds rq)))\<rparr>,
            Suc n))"

definition demo_params :: params where
  "demo_params = \<lparr>host = Some ''switch'', port = None, username = Some ''admin'',
                  password = Some ''secret'', auth_pass = None, use_ssl = None, timeout = None\<rparr>"

definition demo_world :: "nat world" where
  "demo_world = \<lparr>dev = 0, wire = []\<rparr>"

definition demo_commands :: "string list" where
  "demo_commands = [''show version'', ''show interfaces | json'', ''show clock'']"

definition demo_params_enable :: params where
  "demo_params_enable = demo_params\<lparr>auth_pass := Some ''letmein''\<rparr>"

definition demo_rejected_commands :: "string list" where
  "demo_rejected_commands = [''show interfaces | json'', ''bogus'', ''show version | json'']"

text \<open>
  A shell whose answer to \<^verbatim>\<open>show clock\<close> is text that parses as JSON, and whose answer to a
  command with the \<^verbatim>\<open>| json\<close> marker is text that does not (it starts with a no-break
  space and ends with a line feed); and a \<^verbatim>\<open>from_json\<close> that knows the one number.
\<close>

definition demo_exec :: "nat exec" where
  "demo_exec n c =
     (if c = Plain ''show clock'' then ((0, ''42'', ''''), Suc n)
      else if c = Plain ''show version | json''
        then ((0, CHR 0xA0 # '' EOS 4.15\<newline>'', ''''), Suc n)
      else ((1, '''', ''% Invalid input''), Suc n))"

definition demo_from_json :: "string \<Rightarrow> json option" where
  "demo_from_json s = (if s = ''42'' then Some (JNum 42) else None)"

definition demo_shell :: "nat shell" where
  "demo_shell = \<lparr>sdev = 0, transcript = []\<rparr>"

text \<open>
  A namespace in which the bare names of \<^verbatim>\<open>load_config\<close> are bound, to see what the body
  does behind them.
\<close>

definition bound_namespace :: namespace where
  "bound_namespace = module_namespace @ map (\<lambda>n. (n, GOther))
     [''os'', ''check_authorization'', ''supports_sessions'', ''configure'', ''send_config'']"

section \<open>Properties\<close>

subsection \<open>Strings\<close>

lemma endswith_iff_suffix: "endswith s suf \<longleftrightarrow> suffix suf s"
proof
  assume "endswith s suf"
  then have "s = take (length s - length suf) s @ suf"
    by (metis append_take_drop_id endswith_def)
  then show "suffix suf s"
    by (metis suffixI)
next
  assume "suffix suf s"
  then obtain p where "s = p @ suf"
    by (auto simp: suffix_def)
  then show "endswith s suf"
    by (simp add: endswith_def)
qed

subsection \<open>The batching loop\<close>

lemma is_text_is_json: "is_text x = (\<not> is_json x)"
  by (simp add: is_text_def is_json_def)

lemma Eapi_send_request_eq:
  "Eapi_send_request fetch self commands output w =
     (decode_reply self (fst (fetch (dev w) (posted self commands output))),
      \<lparr>dev = snd (fetch (dev w) (posted self commands output)),
       wire = wire w @ [(posted self commands output, fst (fetch (dev w) (posted self commands output)))]\<rparr>)"
  by (simp add: Eapi_send_request_def decode_reply_def posted_def to_list_def Let_def
           split: prod.split payload.split response.split list.split)

lemma send_Inr:
  assumes "run_commands_send fetch self q out w = (Inr rs, w')"
  shows "\<exists>x. wire w' = wire w @ [x] \<and> submitted self x = q \<and> delivered self x = rs
            \<and> format (fst x) = out \<and> \<not> rejected x"
proof -
  let ?x = "(posted self q out, fst (fetch (dev w) (posted self q out)))"
  from assms have "wire w' = wire w @ [?x]"
    by (auto simp: run_commands_send_def Eapi_send_request_eq split: sum.splits response.splits)
  moreover have "submitted self ?x = q" "format (fst ?x) = out"
    by (simp_all add: submitted_def posted_def request_builder_def)
  moreover from assms have "decode_reply self (snd ?x) = Inr (Result rs)"
    by (auto simp: run_commands_send_def Eapi_send_request_eq split: sum.splits response.splits)
  then have "delivered self ?x = rs \<and> \<not> rejected ?x"
    by (auto simp: decode_reply_def delivered_def rejected_def
             split: if_splits payload.splits response.splits list.splits)
  ultimately show ?thesis by blast
qed

lemma send_Inl:
  assumes "run_commands_send fetch self q out w = (Inl e, w')"
  shows "\<exists>x. wire w' = wire w @ [x] \<and> (rejected x \<longrightarrow> e = device_error x)"
proof -
  let ?x = "(posted self q out, fst (fetch (dev w) (posted self q out)))"
  from assms have "wire w' = wire w @ [?x]"
    by (auto simp: run_commands_send_def Eapi_send_request_eq split: sum.splits response.splits)
  moreover have "e = device_error ?x" if "rejected ?x"
    using that assms
    by (auto simp: run_commands_send_def Eapi_send_request_eq decode_reply_def rejected_def
                   device_error_def
             split: sum.splits response.splits payload.splits if_splits)
  ultimately show ?thesis by blast
qed


lemma fmt_eq: "fmt a = fmt b \<longleftrightarrow> is_json a = is_json b"
  by (simp add: fmt_def)

lemma flush_cond:
  "output = Some (fmt c) \<Longrightarrow>
     ((output = Some ''json'' \<and> is_text item) \<or> (output = Some ''text'' \<and> is_json item))
       = (is_json c \<noteq> is_json item)"
  by (auto simp: fmt_def is_text_is_json)

lemma loop_Inr:
  assumes "run_commands_loop fetch self items out queue responses w
             = (Inr (out', queue', responses'), w')"
    and "queue \<noteq> []" and "\<forall>c\<in>set queue. out = Some (fmt c)"
  shows "\<exists>new. wire w' = wire w @ new
           \<and> length new = transitions (last queue # items)
           \<and> concat (map (submitted self) new) @ queue' = queue @ items
           \<and> responses' = responses @ concat (map (delivered self) new)
           \<and> queue' \<noteq> [] \<and> (\<forall>c\<in>set queue'. out' = Some (fmt c))
           \<and> (\<forall>x\<in>set new. \<forall>c\<in>set (submitted self x). format (fst x) = Some (fmt c))
           \<and> (\<forall>x\<in>set new. \<not> rejected x)"
  using assms
proof (induction items arbitrary: out queue responses w)
  case Nil
  then show ?case by simp
next
  case (Cons item items)
  let ?nxt = "if is_json item then Some ''json'' else Some ''text''"
  have nxt: "?nxt = Some (fmt item)" by (simp add: fmt_def)
  from Cons.prems have lastq: "out = Some (fmt (last queue))" by simp
  have fc: "((out = Some ''json'' \<and> is_text item) \<or> (out = Some ''text'' \<and> is_json item))
              = (is_json (last queue) \<noteq> is_json item)"
    using lastq by (rule flush_cond)
  show ?case
  proof (cases "is_json (last queue) = is_json item")
    case True
    with Cons.prems(1)
    have run: "run_commands_loop fetch self items ?nxt (queue @ [item]) responses w
                 = (Inr (out', queue', responses'), w')"
      by (simp add: fc)
    have "?nxt = out"
      using lastq True nxt by (simp add: fmt_eq[symmetric])
    then have inv: "\<forall>c\<in>set (queue @ [item]). ?nxt = Some (fmt c)"
      using Cons.prems(3) nxt by auto
    from Cons.IH[OF run _ inv] obtain new where
      "wire w' = wire w @ new"
      "length new = transitions (last (queue @ [item]) # items)"
      "concat (map (submitted self) new) @ queue' = (queue @ [item]) @ items"
      "responses' = responses @ concat (map (delivered self) new)"
      "queue' \<noteq> []" "\<forall>c\<in>set queue'. out' = Some (fmt c)"
      "\<forall>x\<in>set new. \<forall>c\<in>set (submitted self x). format (fst x) = Some (fmt c)"
      "\<forall>x\<in>set new. \<not> rejected x"
      by auto
    with True show ?thesis by auto
  next
    case False
    then have flush: "(out = Some ''json'' \<and> is_text item) \<or> (out = Some ''text'' \<and> is_json item)"
      by (simp add: fc)
    obtain r w1 where snd: "run_commands_send fetch self queue out w = (r, w1)"
      by (cases "run_commands_send fetch self queue out w")
    with Cons.prems(1) flush obtain rs where r: "r = Inr rs"
      by (cases r) auto
    with Cons.prems(1) flush snd
    have run: "run_commands_loop fetch self items ?nxt [item] (responses @ rs) w1
                 = (Inr (out', queue', responses'), w')"
      by simp
    from send_Inr[OF snd[unfolded r]] obtain x where x:
      "wire w1 = wire w @ [x]" "submitted self x = queue" "delivered self x = rs"
      "format (fst x) = out" "\<not> rejected x"
      by blast
    have inv: "\<forall>c\<in>set [item]. ?nxt = Some (fmt c)" by (simp add: fmt_def)
    from Cons.IH[OF run _ inv] obtain new where new:
      "wire w' = wire w1 @ new"
      "length new = transitions (last [item] # items)"
      "concat (map (submitted self) new) @ queue' = [item] @ items"
      "responses' = (responses @ rs) @ concat (map (delivered self) new)"
      "queue' \<noteq> []" "\<forall>c\<in>set queue'. out' = Some (fmt c)"
      "\<forall>x\<in>set new. \<forall>c\<in>set (submitted self x). format (fst x) = Some (fmt c)"
      "\<forall>x\<in>set new. \<not> rejected x"
      by auto
    have "wire w' = wire w @ (x # new)" using x new by simp
    moreover have "length (x # new) = transitions (last queue # item # items)"
      using new False by simp
    moreover have "concat (map (submitted self) (x # new)) @ queue' = queue @ item # items"
      using x new by simp
    moreover have "responses' = responses @ concat (map (delivered self) (x # new))"
      using x new by simp
    moreover have "\<forall>y\<in>set (x # new). \<forall>c\<in>set (submitted self y). format (fst y) = Some (fmt c)"
      using x new Cons.prems(3) by auto
    moreover have "\<forall>y\<in>set (x # new). \<not> rejected y"
      using x new by auto
    ultimately show ?thesis using new(5,6) by blast
  qed
qed


lemma loop_rejected:
  assumes "run_commands_loop fetch self items out queue responses w = (r, w')"
  shows "\<exists>new. wire w' = wire w @ new
           \<and> (\<forall>i<length new. rejected (new ! i) \<longrightarrow>
                  Suc i = length new \<and> (\<exists>e. r = Inl e \<and> e = device_error (new ! i)))"
  using assms
proof (induction items arbitrary: out queue responses w)
  case Nil
  then show ?case by simp
next
  case (Cons item items)
  let ?nxt = "if is_json item then Some ''json'' else Some ''text''"
  show ?case
  proof (cases "(out = Some ''json'' \<and> is_text item) \<or> (out = Some ''text'' \<and> is_json item)")
    case False
    with Cons.prems
    have "run_commands_loop fetch self items ?nxt (queue @ [item]) responses w = (r, w')"
      by simp
    from Cons.IH[OF this] show ?thesis .
  next
    case True
    obtain r1 w1 where snd: "run_commands_send fetch self queue out w = (r1, w1)"
      by (cases "run_commands_send fetch self queue out w")
    show ?thesis
    proof (cases r1)
      case (Inl e)
      with Cons.prems True snd have "r = Inl e" "w' = w1" by simp_all
      moreover from send_Inl[OF snd[unfolded Inl]] obtain x where
        "wire w1 = wire w @ [x]" "rejected x \<longrightarrow> e = device_error x"
        by blast
      ultimately have "wire w' = wire w @ [x] \<and>
         (\<forall>i<length [x]. rejected ([x] ! i) \<longrightarrow>
             Suc i = length [x] \<and> (\<exists>e. r = Inl e \<and> e = device_error ([x] ! i)))"
        by simp
      then show ?thesis by blast
    next
      case (Inr rs)
      with Cons.prems True snd
      have run: "run_commands_loop fetch self items ?nxt [item] (responses @ rs) w1 = (r, w')"
        by simp
      from send_Inr[OF snd[unfolded Inr]] obtain x where
        x: "wire w1 = wire w @ [x]" "\<not> rejected x"
        by blast
      from Cons.IH[OF run] obtain new where new: "wire w' = wire w1 @ new"
        "\<forall>i<length new. rejected (new ! i) \<longrightarrow>
            Suc i = length new \<and> (\<exists>e. r = Inl e \<and> e = device_error (new ! i))"
        by blast
      have "wire w' = wire w @ (x # new)" using x new by simp
      moreover have "\<forall>i<length (x # new). rejected ((x # new) ! i) \<longrightarrow>
            Suc i = length (x # new) \<and> (\<exists>e. r = Inl e \<and> e = device_error ((x # new) ! i))"
      proof (intro allI impI)
        fix i assume i: "i < length (x # new)" and rej: "rejected ((x # new) ! i)"
        with x(2) obtain j where j: "i = Suc j" by (cases i) auto
        with i rej have "j < length new" "rejected (new ! j)" by simp_all
        with new(2) have a: "Suc j = length new"
          and b: "\<exists>e. r = Inl e \<and> e = device_error (new ! j)"
          by blast+
        have c: "(x # new) ! i = new ! j" unfolding j by simp
        show "Suc i = length (x # new) \<and> (\<exists>e. r = Inl e \<and> e = device_error ((x # new) ! i))"
          unfolding c using a b j by simp
      qed
      ultimately show ?thesis by blast
    qed
  qed
qed

lemma exchanges_append: "wire w' = wire w @ new \<Longrightarrow> exchanges w w' = new"
  by (simp add: exchanges_def)

lemma collect_rejected:
  assumes "run_commands_collect fetch self commands w = (r, w')"
  shows "\<exists>new. wire w' = wire w @ new
           \<and> (\<forall>i<length new. rejected (new ! i) \<longrightarrow>
                  Suc i = length new \<and> (\<exists>e. r = Inl e \<and> e = device_error (new ! i)))"
proof -
  obtain r0 w0 where loop: "run_commands_loop fetch self commands None [] [] w = (r0, w0)"
    by (cases "run_commands_loop fetch self commands None [] [] w")
  from loop_rejected[OF loop] obtain new where new: "wire w0 = wire w @ new"
    "\<forall>i<length new. rejected (new ! i) \<longrightarrow>
        Suc i = length new \<and> (\<exists>e. r0 = Inl e \<and> e = device_error (new ! i))"
    by blast
  show ?thesis
  proof (cases r0)
    case (Inl e)
    with assms loop have "r = Inl e" "w' = w0"
      by (simp_all add: run_commands_collect_def to_list_def)
    with new Inl show ?thesis by auto
  next
    case (Inr st)
    obtain out queue responses where st: "st = (out, queue, responses)"
      by (cases st)
    from Inr new(2) have clean: "\<forall>i<length new. \<not> rejected (new ! i)" by auto
    show ?thesis
    proof (cases "queue = []")
      case True
      with assms loop Inr st have "w' = w0"
        by (simp add: run_commands_collect_def to_list_def)
      with new(1) clean show ?thesis by blast
    next
      case False
      obtain r1 w1 where snd: "run_commands_send fetch self queue out w0 = (r1, w1)"
        by (cases "run_commands_send fetch self queue out w0")
      have "\<exists>x. wire w1 = wire w0 @ [x] \<and> (rejected x \<longrightarrow> (\<exists>e. r = Inl e \<and> e = device_error x))
               \<and> w' = w1"
      proof (cases r1)
        case (Inl e)
        with assms loop \<open>r0 = Inr st\<close> st False snd have "r = Inl e" "w' = w1"
          by (simp_all add: run_commands_collect_def to_list_def)
        with send_Inl[OF snd[unfolded Inl]] show ?thesis by blast
      next
        case (Inr rs)
        with assms loop \<open>r0 = Inr st\<close> st False snd have "w' = w1"
          by (simp add: run_commands_collect_def to_list_def)
        with send_Inr[OF snd[unfolded Inr]] show ?thesis by blast
      qed
      then obtain x where x: "wire w1 = wire w0 @ [x]"
        "rejected x \<longrightarrow> (\<exists>e. r = Inl e \<and> e = device_error x)" "w' = w1"
        by blast
      have "wire w' = wire w @ (new @ [x])" using x new by simp
      moreover have "\<forall>i<length (new @ [x]). rejected ((new @ [x]) ! i) \<longrightarrow>
            Suc i = length (new @ [x]) \<and> (\<exists>e. r = Inl e \<and> e = device_error ((new @ [x]) ! i))"
      proof (intro allI impI)
        fix i assume i: "i < length (new @ [x])" and rej: "rejected ((new @ [x]) ! i)"
        have "i = length new"
        proof (rule ccontr)
          assume "i \<noteq> length new"
          with i have "i < length new" by simp
          with rej clean show False by (simp add: nth_append)
        qed
        with rej x(2) show "Suc i = length (new @ [x]) \<and> (\<exists>e. r = Inl e \<and> e = device_error ((new @ [x]) ! i))"
          by simp
      qed
      ultimately show ?thesis by blast
    qed
  qed
qed

lemma collect_Nil: "run_commands_collect fetch self [] w = (Inr [], w)"
  by (simp add: run_commands_collect_def to_list_def)

lemma collect_Inr:
  assumes "run_commands_collect fetch self commands w = (Inr raw, w')" and "commands \<noteq> []"
  shows "\<exists>new. wire w' = wire w @ new
           \<and> length new = Suc (transitions commands)
           \<and> concat (map (submitted self) new) = commands
           \<and> raw = concat (map (delivered self) new)
           \<and> (\<forall>x\<in>set new. \<forall>c\<in>set (submitted self x). format (fst x) = Some (fmt c))
           \<and> (\<forall>x\<in>set new. \<not> rejected x)"
proof -
  from assms(2) obtain c cs where cmds: "commands = c # cs" by (cases commands) auto
  let ?nxt = "if is_json c then Some ''json'' else Some ''text''"
  have first: "run_commands_loop fetch self commands None [] [] w
                 = run_commands_loop fetch self cs ?nxt [c] [] w"
    by (simp add: cmds)
  obtain r0 w0 where loop: "run_commands_loop fetch self cs ?nxt [c] [] w = (r0, w0)"
    by (cases "run_commands_loop fetch self cs ?nxt [c] [] w")
  with assms(1) first obtain out queue responses where r0: "r0 = Inr (out, queue, responses)"
    by (cases r0) (auto simp: run_commands_collect_def to_list_def)
  have inv: "\<forall>d\<in>set [c]. ?nxt = Some (fmt d)" by (simp add: fmt_def)
  from loop_Inr[OF loop[unfolded r0] _ inv] obtain new where new:
    "wire w0 = wire w @ new"
    "length new = transitions (last [c] # cs)"
    "concat (map (submitted self) new) @ queue = [c] @ cs"
    "responses = [] @ concat (map (delivered self) new)"
    "queue \<noteq> []" "\<forall>d\<in>set queue. out = Some (fmt d)"
    "\<forall>x\<in>set new. \<forall>d\<in>set (submitted self x). format (fst x) = Some (fmt d)"
    "\<forall>x\<in>set new. \<not> rejected x"
    by auto
  obtain r1 w1 where snd: "run_commands_send fetch self queue out w0 = (r1, w1)"
    by (cases "run_commands_send fetch self queue out w0")
  with assms(1) first loop r0 new(5) obtain rs where r1: "r1 = Inr rs"
    by (cases r1) (auto simp: run_commands_collect_def to_list_def)
  with assms(1) first loop r0 new(5) snd have fin: "raw = responses @ rs" "w' = w1"
    by (auto simp: run_commands_collect_def to_list_def)
  from send_Inr[OF snd[unfolded r1]] obtain x where x:
    "wire w1 = wire w0 @ [x]" "submitted self x = queue" "delivered self x = rs"
    "format (fst x) = out" "\<not> rejected x"
    by blast
  have "wire w' = wire w @ (new @ [x])" using x new fin by simp
  moreover have "length (new @ [x]) = Suc (transitions commands)"
    using new cmds by simp
  moreover have "concat (map (submitted self) (new @ [x])) = commands"
    using new x cmds by simp
  moreover have "raw = concat (map (delivered self) (new @ [x]))"
    using new x fin by simp
  moreover have "\<forall>y\<in>set (new @ [x]). \<forall>d\<in>set (submitted self y). format (fst y) = Some (fmt d)"
    using new x by auto
  moreover have "\<forall>y\<in>set (new @ [x]). \<not> rejected y"
    using new x by auto
  ultimately show ?thesis by blast
qed

lemma unwrap_Inr:
  assumes "run_commands_unwrap k items rsp = Inr rs"
  shows "length rs = length rsp
       \<and> (\<forall>i. i < k \<longrightarrow> rs ! i = rsp ! i)
       \<and> (\<forall>j<length items.
            (is_text (items ! j) \<longrightarrow> k + j < length rsp
               \<and> (\<exists>d s. rsp ! (k + j) = JDict d \<and> map_of d ''output'' = Some (JStr s)
                        \<and> rs ! (k + j) = JStr (strip isspace_text s)))
          \<and> (\<not> is_text (items ! j) \<longrightarrow> rs ! (k + j) = rsp ! (k + j)))"
  using assms
proof (induction items arbitrary: k rsp)
  case Nil
  then show ?case by simp
next
  case (Cons item items)
  show ?case
  proof (cases "is_text item")
    case False
    with Cons.prems have run: "run_commands_unwrap (Suc k) items rsp = Inr rs" by simp
    from Cons.IH[OF run] have len: "length rs = length rsp"
      and before: "\<forall>i. i < Suc k \<longrightarrow> rs ! i = rsp ! i"
      and rest: "\<forall>j<length items.
            (is_text (items ! j) \<longrightarrow> Suc k + j < length rsp
               \<and> (\<exists>d s. rsp ! (Suc k + j) = JDict d \<and> map_of d ''output'' = Some (JStr s)
                        \<and> rs ! (Suc k + j) = JStr (strip isspace_text s)))
          \<and> (\<not> is_text (items ! j) \<longrightarrow> rs ! (Suc k + j) = rsp ! (Suc k + j))"
      by blast+
    have "\<forall>j<length (item # items).
            (is_text ((item # items) ! j) \<longrightarrow> k + j < length rsp
               \<and> (\<exists>d s. rsp ! (k + j) = JDict d \<and> map_of d ''output'' = Some (JStr s)
                        \<and> rs ! (k + j) = JStr (strip isspace_text s)))
          \<and> (\<not> is_text ((item # items) ! j) \<longrightarrow> rs ! (k + j) = rsp ! (k + j))"
    proof (intro allI impI)
      fix j assume j: "j < length (item # items)"
      show "(is_text ((item # items) ! j) \<longrightarrow> k + j < length rsp
               \<and> (\<exists>d s. rsp ! (k + j) = JDict d \<and> map_of d ''output'' = Some (JStr s)
                        \<and> rs ! (k + j) = JStr (strip isspace_text s)))
          \<and> (\<not> is_text ((item # items) ! j) \<longrightarrow> rs ! (k + j) = rsp ! (k + j))"
      proof (cases j)
        case 0
        with False before show ?thesis by simp
      next
        case (Suc j')
        with j have "j' < length items" by simp
        with rest Suc show ?thesis by simp
      qed
    qed
    with len before show ?thesis by simp
  next
    case True
    with Cons.prems have inrange: "k < length rsp"
      by (auto split: if_splits)
    from Cons.prems True inrange obtain v where v: "subscript (rsp ! k) ''output'' = Inr v"
      by (cases "subscript (rsp ! k) ''output''") auto
    from Cons.prems True inrange v obtain t where t: "strip_method v = Inr t"
      by (cases "strip_method v") auto
    from v obtain d where d: "rsp ! k = JDict d" "map_of d ''output'' = Some v"
      by (cases "rsp ! k") (auto split: option.splits)
    from t obtain s where s: "v = JStr s" "t = JStr (strip isspace_text s)"
      by (cases v) auto
    from Cons.prems True inrange v t
    have run: "run_commands_unwrap (Suc k) items (rsp[k := t]) = Inr rs" by simp
    from Cons.IH[OF run] have len: "length rs = length rsp"
      and before: "\<forall>i. i < Suc k \<longrightarrow> rs ! i = rsp[k := t] ! i"
      and rest: "\<forall>j<length items.
            (is_text (items ! j) \<longrightarrow> Suc k + j < length (rsp[k := t])
               \<and> (\<exists>d s. rsp[k := t] ! (Suc k + j) = JDict d \<and> map_of d ''output'' = Some (JStr s)
                        \<and> rs ! (Suc k + j) = JStr (strip isspace_text s)))
          \<and> (\<not> is_text (items ! j) \<longrightarrow> rs ! (Suc k + j) = rsp[k := t] ! (Suc k + j))"
      by simp_all
    have old: "\<forall>i. i < k \<longrightarrow> rs ! i = rsp ! i"
      using before by simp
    have here: "rs ! k = JStr (strip isspace_text s)"
      using before inrange s by simp
    have "\<forall>j<length (item # items).
            (is_text ((item # items) ! j) \<longrightarrow> k + j < length rsp
               \<and> (\<exists>d s. rsp ! (k + j) = JDict d \<and> map_of d ''output'' = Some (JStr s)
                        \<and> rs ! (k + j) = JStr (strip isspace_text s)))
          \<and> (\<not> is_text ((item # items) ! j) \<longrightarrow> rs ! (k + j) = rsp ! (k + j))"
    proof (intro allI impI)
      fix j assume j: "j < length (item # items)"
      show "(is_text ((item # items) ! j) \<longrightarrow> k + j < length rsp
               \<and> (\<exists>d s. rsp ! (k + j) = JDict d \<and> map_of d ''output'' = Some (JStr s)
                        \<and> rs ! (k + j) = JStr (strip isspace_text s)))
          \<and> (\<not> is_text ((item # items) ! j) \<longrightarrow> rs ! (k + j) = rsp ! (k + j))"
      proof (cases j)
        case 0
        with True inrange d s here show ?thesis by simp
      next
        case (Suc j')
        with j have "j' < length items" by simp
        with rest Suc show ?thesis by simp
      qed
    qed
    with len old show ?thesis by simp
  qed
qed

lemma zip_concat_map:
  "\<forall>x\<in>set xs. length (f x) = length (g x) \<Longrightarrow>
     zip (concat (map f xs)) (concat (map g xs)) = concat (map (\<lambda>x. zip (f x) (g x)) xs)"
  by (induction xs) simp_all

lemma length_concat_map:
  "\<forall>x\<in>set xs. length (f x) = length (g x) \<Longrightarrow>
     length (concat (map f xs)) = length (concat (map g xs))"
  by (induction xs) simp_all

subsection \<open>The sample device at work\<close>

lemma is_json_demo [simp]:
  "is_json ''show version'' = False" "is_json ''show interfaces | json'' = True"
  "is_text ''show version'' = True" "is_text ''show interfaces | json'' = False"
  "is_json ''show clock'' = False" "is_text ''show clock'' = True"
  by (simp_all add: is_json_def is_text_def endswith_def)

lemma strip_demo [simp]:
  "strip isspace_text (CHR 0xA0 # '' show version\<newline>'') = ''show version''"
  "strip isspace_text (CHR 0xA0 # '' show clock\<newline>'') = ''show clock''"
  by (simp_all add: strip_def isspace_text_def)

lemma demo_run:
  "Eapi_run_commands demo_device (Eapi_init demo_params) demo_commands demo_world =
    (Inr [JStr ''show version'', JDict [(''command'', JStr ''show interfaces | json'')],
          JStr ''show clock''],
     \<lparr>dev = 3, wire =
       [(posted (Eapi_init demo_params) [''show version''] (Some ''text''),
         \<lparr>status = 200, payload = Decoded (Result (map (demo_answer (Some ''text'')) [''enable'', ''show version'']))\<rparr>),
        (posted (Eapi_init demo_params) [''show interfaces | json''] (Some ''json''),
         \<lparr>status = 200, payload = Decoded (Result (map (demo_answer (Some ''json'')) [''enable'', ''show interfaces | json'']))\<rparr>),
        (posted (Eapi_init demo_params) [''show clock''] (Some ''text''),
         \<lparr>status = 200, payload = Decoded (Result (map (demo_answer (Some ''text'')) [''enable'', ''show clock'']))\<rparr>)]\<rparr>)"
  by (simp add: Eapi_run_commands_def run_commands_collect_def run_commands_send_def
        Eapi_send_request_eq decode_reply_def posted_def request_builder_def
        demo_device_def demo_params_def demo_world_def demo_commands_def Eapi_init_def
        truthy_str_def truthy_enable_def truthy_bool_def truthy_int_def to_list_def demo_answer_def)

lemma demo_rejected_run:
  "Eapi_run_commands demo_device (Eapi_init demo_params) demo_rejected_commands demo_world =
    (Inl (FailJson [(''msg'', JStr ''invalid command''), (''code'', JNum 1002)]),
     \<lparr>dev = 2, wire =
       [(posted (Eapi_init demo_params) [''show interfaces | json''] (Some ''json''),
         \<lparr>status = 200, payload = Decoded (Result (map (demo_answer (Some ''json'')) [''enable'', ''show interfaces | json'']))\<rparr>),
        (posted (Eapi_init demo_params) [''bogus''] (Some ''text''),
         \<lparr>status = 200, payload = Decoded (Error ''invalid command'' 1002)\<rparr>)]\<rparr>)"
  by (simp add: Eapi_run_commands_def run_commands_collect_def run_commands_send_def
        Eapi_send_request_eq decode_reply_def posted_def request_builder_def
        demo_device_def demo_params_def demo_world_def demo_rejected_commands_def Eapi_init_def
        truthy_str_def truthy_enable_def truthy_bool_def truthy_int_def to_list_def demo_answer_def
        is_json_def is_text_def endswith_def)

lemma demo_exchanges:
  "exchanges demo_world
     (snd (Eapi_run_commands demo_device (Eapi_init demo_params) demo_commands demo_world)) =
       [(posted (Eapi_init demo_params) [''show version''] (Some ''text''),
         \<lparr>status = 200, payload = Decoded (Result (map (demo_answer (Some ''text'')) [''enable'', ''show version'']))\<rparr>),
        (posted (Eapi_init demo_params) [''show interfaces | json''] (Some ''json''),
         \<lparr>status = 200, payload = Decoded (Result (map (demo_answer (Some ''json'')) [''enable'', ''show interfaces | json'']))\<rparr>),
        (posted (Eapi_init demo_params) [''show clock''] (Some ''text''),
         \<lparr>status = 200, payload = Decoded (Result (map (demo_answer (Some ''text'')) [''enable'', ''show clock'']))\<rparr>)]"
  unfolding demo_run by (simp add: exchanges_def demo_world_def)

lemma demo_enable: "truthy_enable (e_enable (Eapi_init demo_params))"
  by (simp add: Eapi_init_def truthy_enable_def Let_def)

lemma demo_delivered:
  "concat (map (delivered (Eapi_init demo_params)) (exchanges demo_world
     (snd (Eapi_run_commands demo_device (Eapi_init demo_params) demo_commands demo_world))))
   = [JDict [(''output'', JStr (CHR 0xA0 # '' show version\<newline>''))],
      JDict [(''command'', JStr ''show interfaces | json'')],
      JDict [(''output'', JStr (CHR 0xA0 # '' show clock\<newline>''))]]"
  unfolding demo_exchanges by (simp add: delivered_def demo_enable demo_answer_def)

subsection \<open>The interactive loop, the names and the cache\<close>

lemma Cli_loop_Inr:
  assumes "Cli_run_commands_loop exec from_json py check_rc items responses sh = (Inr rs, sh')"
  shows "\<exists>new. transcript sh' = transcript sh @ new
           \<and> map fst new = map Plain items
           \<and> rs = responses @ map (\<lambda>x. run_commands_decode from_json py (fst (snd (snd x)))) new
           \<and> (check_rc \<longrightarrow> (\<forall>x\<in>set new. fst (snd x) = 0))"
  using assms
proof (induction items arbitrary: responses sh)
  case Nil
  then show ?case by simp
next
  case (Cons cmd rest)
  obtain rc out err sh1 where ex: "exec_command exec (Plain cmd) sh = ((rc, out, err), sh1)"
    by (metis prod_cases3 surj_pair)
  have tr: "transcript sh1 = transcript sh @ [(Plain cmd, rc, out, err)]"
    using ex by (auto simp: exec_command_def split: prod.splits)
  from Cons.prems ex have ok: "\<not> (check_rc \<and> rc \<noteq> 0)"
    by (auto split: if_splits)
  with Cons.prems ex
  have run: "Cli_run_commands_loop exec from_json py check_rc rest
               (responses @ [run_commands_decode from_json py out]) sh1 = (Inr rs, sh')"
    by simp
  from Cons.IH[OF run] obtain new where new: "transcript sh' = transcript sh1 @ new"
    "map fst new = map Plain rest"
    "rs = (responses @ [run_commands_decode from_json py out])
            @ map (\<lambda>x. run_commands_decode from_json py (fst (snd (snd x)))) new"
    "check_rc \<longrightarrow> (\<forall>x\<in>set new. fst (snd x) = 0)"
    by blast
  let ?new = "(Plain cmd, rc, out, err) # new"
  have "transcript sh' = transcript sh @ ?new" using tr new by simp
  moreover have "map fst ?new = map Plain (cmd # rest)" using new by simp
  moreover have "rs = responses @ map (\<lambda>x. run_commands_decode from_json py (fst (snd (snd x)))) ?new"
    using new by simp
  moreover have "check_rc \<longrightarrow> (\<forall>x\<in>set ?new. fst (snd x) = 0)"
    using new ok by simp
  ultimately show ?case by blast
qed

lemma load_callable_module [simp]:
  "load_callable module_namespace ''supports_sessions'' = Inl (NameError ''supports_sessions'')"
  "load_callable module_namespace ''check_authorization'' = Inl (NameError ''check_authorization'')"
  "load_callable module_namespace ''configure'' = Inl (NameError ''configure'')"
  "load_callable module_namespace ''send_config'' = Inl (NameError ''send_config'')"
  by (simp_all add: load_callable_def load_name_def module_namespace_def)

lemma load_config_raises_NameError:
  "Eapi_load_config fetch module_namespace stamp self config commit replace w
     = (Inl (NameError ''supports_sessions''), self, w)
   \<and> Cli_load_config exec py module_namespace use_session stamp commands commit replace sh
     = (Inl (NameError ''check_authorization''), sh)"
  by (simp add: Eapi_load_config_def Cli_load_config_def)

text \<open>
  With the attribute bound on the instance, \<open>Eapi_get_config\<close> does cache: a call that
  returned a text is answered again from the cache, with no further request.
\<close>

lemma Eapi_get_config_hit:
  assumes "map_of (e_dict self) ''_device_configs'' = Some configs"
    and "Eapi_get_config fetch py repr self flags w = (Inr cfg, self', w')"
  shows "Eapi_get_config fetch py repr self' flags w' = (Inr cfg, self', w')"
  using assms
  by (auto simp: Eapi_get_config_def Let_def update_conv'
           split: option.splits prod.splits sum.splits response.splits list.splits)

lemma demo_shell_run:
  "Cli_run_commands demo_exec demo_from_json Python3 [''show clock'', ''show version | json'']
       True demo_shell
     = (Inr [JNum 42, JStr ''EOS 4.15''],
        \<lparr>sdev = 2,
         transcript = [(Plain ''show clock'', 0, ''42'', ''''),
                       (Plain ''show version | json'', 0,
                        CHR 0xA0 # '' EOS 4.15\<newline>'', '''')]\<rparr>)"
  by (simp add: Cli_run_commands_def to_list_def exec_command_def demo_exec_def demo_shell_def
        run_commands_decode_def demo_from_json_def strip_def isspace_text_def str_isspace_def)

subsection \<open>load_config behind the names\<close>

text \<open>
  In a namespace that binds the bare names, the body of \<open>Eapi_load_config\<close> runs on the
  sample device as follows: a rejected command is followed by the request that aborts the
  session and by \<^verbatim>\<open>fail_json\<close> with the device's message and code; and without
  \<^verbatim>\<open>commit\<close> the session is aborted in the request that reads the diff, which is returned.
\<close>

lemma load_callable_bound [simp]:
  "load_callable bound_namespace ''supports_sessions'' = Inr ()"
  "load_callable bound_namespace ''configure'' = Inr ()"
  by (simp_all add: load_callable_def load_name_def bound_namespace_def module_namespace_def)

lemma Eapi_load_config_bound_rejected:
  "Eapi_load_config demo_device bound_namespace ''1490000000'' (Eapi_init demo_params)
       [''interface Ethernet1'', ''bogus''] True False demo_world
     = (Inl (FailJson [(''msg'', JStr ''invalid command''), (''code'', JNum 1002)]),
        (Eapi_init demo_params)\<lparr>e_session_support := Some True\<rparr>,
        \<lparr>dev = 3, wire =
          [(request_builder [''enable'', ''show configuration sessions''] (Some ''text'') None,
            \<lparr>status = 200, payload = Decoded (Result
               [JDict [(''output'', JStr (CHR 0xA0 # '' enable\<newline>''))],
                JDict [(''output'', JStr (CHR 0xA0 # '' show configuration sessions\<newline>''))]])\<rparr>),
           (request_builder [''enable'', ''configure session ansible_1490000000'',
                             ''interface Ethernet1'', ''bogus''] (Some ''text'') None,
            \<lparr>status = 200, payload = Decoded (Error ''invalid command'' 1002)\<rparr>),
           (request_builder [''enable'', ''configure session ansible_1490000000'', ''abort'']
              (Some ''text'') None,
            \<lparr>status = 200, payload = Decoded (Result
               [JDict [(''output'', JStr (CHR 0xA0 # '' enable\<newline>''))],
                JDict [(''output'', JStr (CHR 0xA0 # '' configure session ansible_1490000000\<newline>''))],
                JDict [(''output'', JStr (CHR 0xA0 # '' abort\<newline>''))]])\<rparr>)]\<rparr>)"
  by (simp add: Eapi_load_config_def Eapi_supports_sessions_def Eapi_send_request_eq
        decode_reply_def posted_def demo_device_def demo_answer_def demo_world_def
        Eapi_init_def demo_params_def truthy_enable_def truthy_str_def truthy_bool_def
        truthy_int_def request_builder_def Let_def)

lemma Eapi_load_config_bound_dry_run:
  "Eapi_load_config demo_device bound_namespace ''1490000000'' (Eapi_init demo_params)
       [''interface Ethernet1''] False False demo_world
     = (Inr [(''session'', JStr ''ansible_1490000000''),
             (''diff'', JStr (CHR 0xA0 # '' show session-config diffs\<newline>''))],
        (Eapi_init demo_params)\<lparr>e_session_support := Some True\<rparr>,
        \<lparr>dev = 3, wire =
          [(request_builder [''enable'', ''show configuration sessions''] (Some ''text'') None,
            \<lparr>status = 200, payload = Decoded (Result
               [JDict [(''output'', JStr (CHR 0xA0 # '' enable\<newline>''))],
                JDict [(''output'', JStr (CHR 0xA0 # '' show configuration sessions\<newline>''))]])\<rparr>),
           (request_builder [''enable'', ''configure session ansible_1490000000'',
                             ''interface Ethernet1''] (Some ''text'') None,
            \<lparr>status = 200, payload = Decoded (Result
               [JDict [(''output'', JStr (CHR 0xA0 # '' enable\<newline>''))],
                JDict [(''output'', JStr (CHR 0xA0 # '' configure session ansible_1490000000\<newline>''))],
                JDict [(''output'', JStr (CHR 0xA0 # '' interface Ethernet1\<newline>''))]])\<rparr>),
           (request_builder [''enable'', ''configure session ansible_1490000000'',
                             ''show session-config diffs'', ''abort''] (Some ''text'') None,
            \<lparr>status = 200, payload = Decoded (Result
               [JDict [(''output'', JStr (CHR 0xA0 # '' enable\<newline>''))],
                JDict [(''output'', JStr (CHR 0xA0 # '' configure session ansible_1490000000\<newline>''))],
                JDict [(''output'', JStr (CHR 0xA0 # '' show session-config diffs\<newline>''))],
                JDict [(''output'', JStr (CHR 0xA0 # '' abort\<newline>''))]])\<rparr>)]\<rparr>)"
  by (simp add: Eapi_load_config_def Eapi_supports_sessions_def Eapi_send_request_eq
        decode_reply_def posted_def demo_device_def demo_answer_def demo_world_def
        Eapi_init_def demo_params_def truthy_enable_def truthy_str_def truthy_bool_def
        truthy_int_def request_builder_def Let_def)

subsection \<open>The second loop, characterised\<close>

lemma unwrap_outside:
  assumes "run_commands_unwrap k items rsp = Inr rs"
    and "i < k \<or> k + length items \<le> i"
  shows "rs ! i = rsp ! i"
  using assms
proof (induction items arbitrary: k rsp)
  case Nil
  then show ?case by simp
next
  case (Cons item items)
  from Cons.prems(2) have out: "i < Suc k \<or> Suc k + length items \<le> i" and ne: "i \<noteq> k"
    by auto
  show ?case
  proof (cases "is_text item")
    case False
    with Cons.prems(1) have "run_commands_unwrap (Suc k) items rsp = Inr rs" by simp
    from Cons.IH[OF this out] show ?thesis .
  next
    case True
    with Cons.prems(1) obtain t where "run_commands_unwrap (Suc k) items (rsp[k := t]) = Inr rs"
      by (auto split: if_splits sum.splits)
    from Cons.IH[OF this out] ne show ?thesis by simp
  qed
qed

lemma unwrap_total:
  assumes "\<forall>j<length items. is_text (items ! j) \<longrightarrow> k + j < length rsp
             \<and> (\<exists>d s. rsp ! (k + j) = JDict d \<and> map_of d ''output'' = Some (JStr s))"
  shows "\<exists>rs. run_commands_unwrap k items rsp = Inr rs"
  using assms
proof (induction items arbitrary: k rsp)
  case Nil
  then show ?case by simp
next
  case (Cons item items)
  have rest: "\<forall>j<length items. is_text (items ! j) \<longrightarrow> Suc k + j < length rsp
             \<and> (\<exists>d s. rsp ! (Suc k + j) = JDict d \<and> map_of d ''output'' = Some (JStr s))"
  proof (intro allI impI)
    fix j assume "j < length items" and "is_text (items ! j)"
    with Cons.prems[rule_format, of "Suc j"]
    show "Suc k + j < length rsp
             \<and> (\<exists>d s. rsp ! (Suc k + j) = JDict d \<and> map_of d ''output'' = Some (JStr s))"
      by simp
  qed
  show ?case
  proof (cases "is_text item")
    case False
    with Cons.IH[OF rest] show ?thesis by simp
  next
    case True
    with Cons.prems[rule_format, of 0] obtain d s where here: "k < length rsp"
      "rsp ! k = JDict d" "map_of d ''output'' = Some (JStr s)"
      by auto
    let ?rsp = "rsp[k := JStr (strip isspace_text s)]"
    have "\<forall>j<length items. is_text (items ! j) \<longrightarrow> Suc k + j < length ?rsp
             \<and> (\<exists>d s. ?rsp ! (Suc k + j) = JDict d \<and> map_of d ''output'' = Some (JStr s))"
      using rest by simp
    from Cons.IH[OF this] obtain rs where "run_commands_unwrap (Suc k) items ?rsp = Inr rs"
      by blast
    with True here show ?thesis by simp
  qed
qed

text \<open>
  The second loop returns a list exactly when every text position lies within the collected
  entries and holds a mapping with a string under \<^verbatim>\<open>output\<close>; the list returned has that
  string, stripped, at the text positions and the collected entry everywhere else.
\<close>

lemma unwrap_iff:
  "run_commands_unwrap 0 commands raw = Inr rs \<longleftrightarrow>
     length rs = length raw
   \<and> (\<forall>i<length commands. is_text (commands ! i) \<longrightarrow> i < length raw)
   \<and> (\<forall>i<length raw.
         (i < length commands \<and> is_text (commands ! i) \<longrightarrow>
            (\<exists>d s. raw ! i = JDict d \<and> map_of d ''output'' = Some (JStr s)
                  \<and> rs ! i = JStr (strip isspace_text s)))
       \<and> (\<not> (i < length commands \<and> is_text (commands ! i)) \<longrightarrow> rs ! i = raw ! i))"
  (is "?run rs \<longleftrightarrow> ?len rs \<and> ?inrange \<and> ?each rs")
proof -
  have forward: "?len r \<and> ?inrange \<and> ?each r" if run: "?run r" for r
  proof -
    from unwrap_Inr[OF run] have len: "length r = length raw"
      and each: "\<forall>j<length commands.
            (is_text (commands ! j) \<longrightarrow> 0 + j < length raw
               \<and> (\<exists>d s. raw ! (0 + j) = JDict d \<and> map_of d ''output'' = Some (JStr s)
                        \<and> r ! (0 + j) = JStr (strip isspace_text s)))
          \<and> (\<not> is_text (commands ! j) \<longrightarrow> r ! (0 + j) = raw ! (0 + j))"
      by blast+
    have beyond: "r ! i = raw ! i" if "length commands \<le> i" for i
      using unwrap_outside[OF run, of i] that by simp
    from len each beyond show ?thesis
      by (metis add_0 not_le_imp_less)
  qed
  show ?thesis
  proof
    assume "?run rs"
    then show "?len rs \<and> ?inrange \<and> ?each rs" by (rule forward)
  next
    assume spec: "?len rs \<and> ?inrange \<and> ?each rs"
    then have "\<forall>j<length commands. is_text (commands ! j) \<longrightarrow> 0 + j < length raw
             \<and> (\<exists>d s. raw ! (0 + j) = JDict d \<and> map_of d ''output'' = Some (JStr s))"
      by auto
    from unwrap_total[OF this] obtain r where r: "?run r" by blast
    from forward[OF r] have fr: "?len r" "?each r" by blast+
    have "r = rs"
    proof (rule nth_equalityI)
      show "length r = length rs" using fr(1) spec by simp
    next
      fix i assume "i < length r"
      with fr(1) have i: "i < length raw" by simp
      show "r ! i = rs ! i"
      proof (cases "i < length commands \<and> is_text (commands ! i)")
        case True
        with fr(2) i obtain d s where a: "raw ! i = JDict d" "map_of d ''output'' = Some (JStr s)"
          "r ! i = JStr (strip isspace_text s)" by blast
        from spec True i obtain d' s' where b: "raw ! i = JDict d'"
          "map_of d' ''output'' = Some (JStr s')" "rs ! i = JStr (strip isspace_text s')" by blast
        from a b show ?thesis by simp
      next
        case False
        with fr(2) i have "r ! i = raw ! i" by blast
        moreover from spec False i have "rs ! i = raw ! i" by blast
        ultimately show ?thesis by simp
      qed
    qed
    with r show "?run rs" by simp
  qed
qed

lemma collect_collected:
  assumes "run_commands_collect fetch self commands w = (Inr raw, w')"
  shows "wire w' = wire w @ exchanges w w'
       \<and> length (exchanges w w') = (if commands = [] then 0 else 1 + transitions commands)
       \<and> concat (map (submitted self) (exchanges w w')) = commands
       \<and> raw = collected self w w'
       \<and> (\<forall>x\<in>set (exchanges w w'). \<forall>c\<in>set (submitted self x). format (fst x) = Some (fmt c))"
proof (cases "commands = []")
  case True
  with assms have "raw = []" "w' = w" by (simp_all add: collect_Nil)
  with True show ?thesis by (simp add: exchanges_def collected_def)
next
  case False
  from collect_Inr[OF assms False] obtain new where new: "wire w' = wire w @ new"
    "length new = Suc (transitions commands)"
    "concat (map (submitted self) new) = commands"
    "raw = concat (map (delivered self) new)"
    "\<forall>x\<in>set new. \<forall>c\<in>set (submitted self x). format (fst x) = Some (fmt c)"
    by blast
  have ex: "exchanges w w' = new" using new(1) by (rule exchanges_append)
  from new False show ?thesis unfolding ex collected_def by simp
qed

lemma run_commands_split:
  "Eapi_run_commands fetch self commands w = (Inr rs, w') \<longleftrightarrow>
     (\<exists>raw. run_commands_collect fetch self commands w = (Inr raw, w')
           \<and> run_commands_unwrap 0 commands raw = Inr rs)"
  by (auto simp: Eapi_run_commands_def split: prod.splits sum.splits)

lemma demo_collect:
  "run_commands_collect demo_device (Eapi_init demo_params) demo_commands demo_world =
    (Inr [JDict [(''output'', JStr (CHR 0xA0 # '' show version\<newline>''))],
          JDict [(''command'', JStr ''show interfaces | json'')],
          JDict [(''output'', JStr (CHR 0xA0 # '' show clock\<newline>''))]],
     snd (Eapi_run_commands demo_device (Eapi_init demo_params) demo_commands demo_world))"
  unfolding demo_run
  by (simp add: run_commands_collect_def run_commands_send_def
        Eapi_send_request_eq decode_reply_def posted_def request_builder_def
        demo_device_def demo_params_def demo_world_def demo_commands_def Eapi_init_def
        truthy_str_def truthy_enable_def truthy_bool_def truthy_int_def to_list_def demo_answer_def)

subsection \<open>The interactive loop on failure\<close>

lemma Cli_loop_Inl:
  assumes "Cli_run_commands_loop exec from_json py check_rc items responses sh = (Inl e, sh')"
  shows "\<exists>new c rc out err. transcript sh' = transcript sh @ new @ [(c, rc, out, err)]
           \<and> check_rc \<and> rc \<noteq> 0 \<and> e = FailJson [(''msg'', JStr err)]"
  using assms
proof (induction items arbitrary: responses sh)
  case Nil
  then show ?case by simp
next
  case (Cons cmd rest)
  obtain rc out err sh1 where ex: "exec_command exec (Plain cmd) sh = ((rc, out, err), sh1)"
    by (metis prod_cases3 surj_pair)
  have tr: "transcript sh1 = transcript sh @ [(Plain cmd, rc, out, err)]"
    using ex by (auto simp: exec_command_def split: prod.splits)
  show ?case
  proof (cases "check_rc \<and> rc \<noteq> 0")
    case True
    with Cons.prems ex have "e = FailJson [(''msg'', JStr err)]" "sh' = sh1" by simp_all
    with tr True have "transcript sh' = transcript sh @ [] @ [(Plain cmd, rc, out, err)]
           \<and> check_rc \<and> rc \<noteq> 0 \<and> e = FailJson [(''msg'', JStr err)]"
      by simp
    then show ?thesis by blast
  next
    case False
    with Cons.prems ex
    have "Cli_run_commands_loop exec from_json py check_rc rest
               (responses @ [run_commands_decode from_json py out]) sh1 = (Inl e, sh')"
      by simp
    from Cons.IH[OF this] obtain new c' rc' out' err' where
      "transcript sh' = transcript sh1 @ new @ [(c', rc', out', err')]"
      "check_rc" "rc' \<noteq> 0" "e = FailJson [(''msg'', JStr err')]"
      by blast
    with tr have "transcript sh' = transcript sh @ ((Plain cmd, rc, out, err) # new) @ [(c', rc', out', err')]
           \<and> check_rc \<and> rc' \<noteq> 0 \<and> e = FailJson [(''msg'', JStr err')]"
      by simp
    then show ?thesis by blast
  qed
qed

lemma demo_shell_run2:
  "Cli_run_commands demo_exec demo_from_json Python2 [''show version | json''] True demo_shell
     = (Inr [JStr (CHR 0xA0 # '' EOS 4.15'')],
        \<lparr>sdev = 1,
         transcript = [(Plain ''show version | json'', 0,
                        CHR 0xA0 # '' EOS 4.15\<newline>'', '''')]\<rparr>)"
  by (simp add: Cli_run_commands_def to_list_def exec_command_def demo_exec_def demo_shell_def
        run_commands_decode_def demo_from_json_def strip_def isspace_bytes_def str_isspace_def)

lemma demo_shell_fail:
  "Cli_run_commands demo_exec demo_from_json Python3 [''show clock'', ''bogus'', ''show clock'']
       True demo_shell
     = (Inl (FailJson [(''msg'', JStr ''% Invalid input'')]),
        \<lparr>sdev = 2,
         transcript = [(Plain ''show clock'', 0, ''42'', ''''),
                       (Plain ''bogus'', 1, '''', ''% Invalid input'')]\<rparr>)"
  by (simp add: Cli_run_commands_def to_list_def exec_command_def demo_exec_def demo_shell_def
        run_commands_decode_def demo_from_json_def)

section \<open>The claims\<close>

text \<open>
  Claim C7. For every command string, the classifier takes it as structured output if and
  only if it ends with the marker \<^verbatim>\<open>| json\<close>, and as plain text otherwise: \<open>is_text\<close> is
  the exact complement of \<open>is_json\<close>.
\<close>

theorem is_json_trailing_marker:
  "(is_json x \<longleftrightarrow> suffix ''| json'' x) \<and> (is_json x \<longleftrightarrow> (\<exists>p. x = p @ ''| json''))
     \<and> (is_text x \<longleftrightarrow> \<not> is_json x)"
  by (auto simp: is_json_def is_text_def endswith_iff_suffix suffix_def)

theorem is_json_trailing_marker_witness:
  "is_json ''show interfaces | json'' \<and> is_text ''show version''
     \<and> is_text ''show interfaces | json '' \<and> is_text ''show | json | count''"
  using is_json_trailing_marker [of "''show interfaces | json''"]
        is_json_trailing_marker [of "''show version''"]
        is_json_trailing_marker [of "''show interfaces | json ''"]
        is_json_trailing_marker [of "''show | json | count''"]
  by (simp add: suffix_to_prefix)

text \<open>
  Claim C1. The empty command sequence gives the empty result and leaves the world as it
  was: no request is issued. A run of \<open>Eapi_run_commands\<close> that returns results has issued
  exactly \<open>1 + transitions commands\<close> requests for a non-empty command sequence; the
  commands submitted in these requests, read in the order of the requests, are the input
  sequence; and the results follow the entries delivered by the replies position by
  position: the result at a position is the entry delivered at that position, unwrapped
  and stripped where the command there is a text command, unchanged otherwise. When every
  reply delivers one entry per submitted command, there is one result per command, and
  pairing the input with the delivered entries pairs every command with the entry its own
  request delivered for it.
\<close>

theorem run_commands_order_and_requests:
  "Eapi_run_commands fetch self [] w = (Inr [], w)
   \<and> (Eapi_run_commands fetch self commands w = (Inr rs, w') \<longrightarrow>
        wire w' = wire w @ exchanges w w'
      \<and> length (exchanges w w') = (if commands = [] then 0 else 1 + transitions commands)
      \<and> concat (map (submitted self) (exchanges w w')) = commands
      \<and> length rs = length (collected self w w')
      \<and> (\<forall>i<length rs.
            (i < length commands \<and> is_text (commands ! i) \<longrightarrow>
               (\<exists>d s. collected self w w' ! i = JDict d \<and> map_of d ''output'' = Some (JStr s)
                     \<and> rs ! i = JStr (strip isspace_text s)))
          \<and> (\<not> (i < length commands \<and> is_text (commands ! i)) \<longrightarrow>
               rs ! i = collected self w w' ! i))
      \<and> ((\<forall>x\<in>set (exchanges w w'). length (delivered self x) = length (submitted self x)) \<longrightarrow>
            length rs = length commands
          \<and> zip commands (collected self w w')
              = concat (map (\<lambda>x. zip (submitted self x) (delivered self x)) (exchanges w w'))))"
proof (intro conjI impI)
  show "Eapi_run_commands fetch self [] w = (Inr [], w)"
    by (simp add: Eapi_run_commands_def collect_Nil)
next
  assume run: "Eapi_run_commands fetch self commands w = (Inr rs, w')"
  then obtain raw where col: "run_commands_collect fetch self commands w = (Inr raw, w')"
    and unw: "run_commands_unwrap 0 commands raw = Inr rs"
    unfolding run_commands_split by blast
  note c = collect_collected[OF col]
  have raw: "raw = collected self w w'" using c by blast
  note u = unwrap_iff[THEN iffD1, OF unw, unfolded raw]
  show "wire w' = wire w @ exchanges w w'" using c by blast
  show "length (exchanges w w') = (if commands = [] then 0 else 1 + transitions commands)"
    using c by blast
  show sub: "concat (map (submitted self) (exchanges w w')) = commands" using c by blast
  show len: "length rs = length (collected self w w')" using u by blast
  show "\<forall>i<length rs.
            (i < length commands \<and> is_text (commands ! i) \<longrightarrow>
               (\<exists>d s. collected self w w' ! i = JDict d \<and> map_of d ''output'' = Some (JStr s)
                     \<and> rs ! i = JStr (strip isspace_text s)))
          \<and> (\<not> (i < length commands \<and> is_text (commands ! i)) \<longrightarrow>
               rs ! i = collected self w w' ! i)"
    using u unfolding len by blast
  {
    assume eq: "\<forall>x\<in>set (exchanges w w'). length (delivered self x) = length (submitted self x)"
    then have eq': "\<forall>x\<in>set (exchanges w w'). length (submitted self x) = length (delivered self x)"
      by simp
    from length_concat_map[OF eq'] sub len
    show "length rs = length commands" by (simp add: collected_def)
    from zip_concat_map[OF eq'] sub
    show "zip commands (collected self w w')
              = concat (map (\<lambda>x. zip (submitted self x) (delivered self x)) (exchanges w w'))"
      by (simp add: collected_def)
  }
qed

theorem run_commands_order_and_requests_witness:
  "fst (Eapi_run_commands demo_device (Eapi_init demo_params) demo_commands demo_world)
     = Inr [JStr ''show version'', JDict [(''command'', JStr ''show interfaces | json'')],
            JStr ''show clock'']
   \<and> length (exchanges demo_world
        (snd (Eapi_run_commands demo_device (Eapi_init demo_params) demo_commands demo_world))) = 3
   \<and> concat (map (submitted (Eapi_init demo_params)) (exchanges demo_world
        (snd (Eapi_run_commands demo_device (Eapi_init demo_params) demo_commands demo_world))))
       = demo_commands
   \<and> zip demo_commands (collected (Eapi_init demo_params) demo_world
        (snd (Eapi_run_commands demo_device (Eapi_init demo_params) demo_commands demo_world)))
       = concat (map (\<lambda>x. zip (submitted (Eapi_init demo_params) x) (delivered (Eapi_init demo_params) x))
           (exchanges demo_world
             (snd (Eapi_run_commands demo_device (Eapi_init demo_params) demo_commands demo_world))))
   \<and> collected (Eapi_init demo_params) demo_world
        (snd (Eapi_run_commands demo_device (Eapi_init demo_params) demo_commands demo_world)) ! 2
       = JDict [(''output'', JStr (CHR 0xA0 # '' show clock\<newline>''))]
   \<and> Eapi_run_commands demo_device (Eapi_init demo_params) [] demo_world = (Inr [], demo_world)"
proof -
  let ?run = "Eapi_run_commands demo_device (Eapi_init demo_params) demo_commands demo_world"
  let ?rs = "[JStr ''show version'', JDict [(''command'', JStr ''show interfaces | json'')],
              JStr ''show clock'']"
  let ?S = "Eapi_init demo_params"
  have r: "?run = (Inr ?rs, snd ?run)"
    by (simp add: demo_run)
  note e = run_commands_order_and_requests
             [of demo_device ?S demo_world demo_commands ?rs "snd ?run", THEN conjunct1]
  note t = run_commands_order_and_requests
             [of demo_device ?S demo_world demo_commands ?rs "snd ?run",
              THEN conjunct2, THEN mp, OF r]
  have "fst ?run = Inr ?rs"
    by (simp add: demo_run)
  moreover have "length (exchanges demo_world (snd ?run)) = 3"
    using t[THEN conjunct2, THEN conjunct1] by (simp add: demo_commands_def)
  moreover have "concat (map (submitted ?S) (exchanges demo_world (snd ?run))) = demo_commands"
    by (rule t[THEN conjunct2, THEN conjunct2, THEN conjunct1])
  moreover have "Eapi_run_commands demo_device ?S [] demo_world = (Inr [], demo_world)"
    by (rule e)
  moreover have one: "\<forall>x\<in>set (exchanges demo_world (snd ?run)).
                        length (delivered ?S x) = length (submitted ?S x)"
    unfolding demo_exchanges
    by (simp add: delivered_def submitted_def demo_enable posted_def request_builder_def)
  from t[THEN conjunct2, THEN conjunct2, THEN conjunct2, THEN conjunct2, THEN conjunct2,
         THEN mp, OF one]
  have "zip demo_commands (collected ?S demo_world (snd ?run))
       = concat (map (\<lambda>x. zip (submitted ?S x) (delivered ?S x)) (exchanges demo_world (snd ?run)))"
    by (rule conjunct2)
  moreover have "collected ?S demo_world (snd ?run) ! 2
          = JDict [(''output'', JStr (CHR 0xA0 # '' show clock\<newline>''))]"
    unfolding collected_def demo_delivered by simp
  ultimately show ?thesis by blast
qed

text \<open>
  Claim C5. If the reply to any request issued by \<open>Eapi_run_commands\<close> is read and carries
  an \<^verbatim>\<open>error\<close> member, the run fails with \<^verbatim>\<open>fail_json\<close> carrying the device's message and
  code, that request is the last one issued, and no results are returned (the outcome is the
  failure alone).
\<close>

theorem run_commands_error_is_fatal:
  assumes "Eapi_run_commands fetch self commands w = (r, w')"
    and "i < length (exchanges w w')"
    and "exchanges w w' ! i = (req, rep)"
    and "status rep = 200"
    and "payload rep = Decoded (Error m c)"
  shows "r = Inl (FailJson [(''msg'', JStr m), (''code'', JNum c)])
       \<and> Suc i = length (exchanges w w')"
proof -
  obtain r0 where col: "run_commands_collect fetch self commands w = (r0, w')"
    using assms(1) by (auto simp: Eapi_run_commands_def split: prod.splits sum.splits)
  from collect_rejected[OF col] obtain new where new: "wire w' = wire w @ new"
    "\<forall>i<length new. rejected (new ! i) \<longrightarrow>
        Suc i = length new \<and> (\<exists>e. r0 = Inl e \<and> e = device_error (new ! i))"
    by blast
  have ex: "exchanges w w' = new" using new(1) by (rule exchanges_append)
  have rej: "rejected (new ! i)" and err: "device_error (new ! i) = FailJson [(''msg'', JStr m), (''code'', JNum c)]"
    using assms(3-5) unfolding ex by (simp_all add: rejected_def device_error_def)
  with new(2) assms(2) have last: "Suc i = length new" and r0: "r0 = Inl (FailJson [(''msg'', JStr m), (''code'', JNum c)])"
    unfolding ex by auto
  from r0 col assms(1) have "r = Inl (FailJson [(''msg'', JStr m), (''code'', JNum c)])"
    by (simp add: Eapi_run_commands_def)
  with last show ?thesis unfolding ex by simp
qed

theorem run_commands_error_is_fatal_witness:
  "fst (Eapi_run_commands demo_device (Eapi_init demo_params) demo_rejected_commands demo_world)
     = Inl (FailJson [(''msg'', JStr ''invalid command''), (''code'', JNum 1002)])
   \<and> length (exchanges demo_world
        (snd (Eapi_run_commands demo_device (Eapi_init demo_params) demo_rejected_commands demo_world))) = 2
   \<and> length demo_rejected_commands = 3"
proof -
  let ?run = "Eapi_run_commands demo_device (Eapi_init demo_params) demo_rejected_commands demo_world"
  let ?rep = "\<lparr>status = 200, payload = Decoded (Error ''invalid command'' 1002)\<rparr>"
  have r: "?run = (fst ?run, snd ?run)" by simp
  have ex: "exchanges demo_world (snd ?run) =
       [(posted (Eapi_init demo_params) [''show interfaces | json''] (Some ''json''),
         \<lparr>status = 200, payload = Decoded (Result (map (demo_answer (Some ''json'')) [''enable'', ''show interfaces | json'']))\<rparr>),
        (posted (Eapi_init demo_params) [''bogus''] (Some ''text''), ?rep)]"
    unfolding demo_rejected_run by (simp add: exchanges_def demo_world_def)
  have i: "1 < length (exchanges demo_world (snd ?run))" by (simp add: ex)
  have x: "exchanges demo_world (snd ?run) ! 1 = (posted (Eapi_init demo_params) [''bogus''] (Some ''text''), ?rep)"
    by (simp add: ex)
  have "fst ?run = Inl (FailJson [(''msg'', JStr ''invalid command''), (''code'', JNum 1002)])
       \<and> Suc 1 = length (exchanges demo_world (snd ?run))"
    by (rule run_commands_error_is_fatal [OF r i x]) simp_all
  then show ?thesis by (simp add: demo_rejected_commands_def)
qed

text \<open>
  Claim C6. \<open>Eapi_run_commands\<close> returns results exactly when the batches were collected
  without failure, every text command has an entry at its position, and that entry is a
  mapping with a string under \<^verbatim>\<open>output\<close>; the result of a text command is then that string
  stripped of surrounding whitespace (the whitespace of text strings), and the result at
  every other position is the collected entry, unchanged. The collected entries are the
  entries the replies delivered, in order, and every request is tagged \<^verbatim>\<open>text\<close> exactly when
  its commands are text commands and \<^verbatim>\<open>json\<close> exactly when they are structured ones.
\<close>

theorem run_commands_text_unwrapped:
  "(Eapi_run_commands fetch self commands w = (Inr rs, w')) =
     (\<exists>raw. run_commands_collect fetch self commands w = (Inr raw, w')
           \<and> length rs = length raw
           \<and> (\<forall>i<length commands. is_text (commands ! i) \<longrightarrow> i < length raw)
           \<and> (\<forall>i<length raw.
                 (i < length commands \<and> is_text (commands ! i) \<longrightarrow>
                    (\<exists>d s. raw ! i = JDict d \<and> map_of d ''output'' = Some (JStr s)
                          \<and> rs ! i = JStr (strip isspace_text s)))
               \<and> (\<not> (i < length commands \<and> is_text (commands ! i)) \<longrightarrow> rs ! i = raw ! i)))
   \<and> (run_commands_collect fetch self commands w = (Inr raw', w') \<longrightarrow>
        raw' = collected self w w'
      \<and> (\<forall>x\<in>set (exchanges w w'). \<forall>c\<in>set (submitted self x).
            (format (fst x) = Some ''text'') = is_text c
          \<and> (format (fst x) = Some ''json'') = is_json c))"
proof (intro conjI impI)
  show "(Eapi_run_commands fetch self commands w = (Inr rs, w')) =
     (\<exists>raw. run_commands_collect fetch self commands w = (Inr raw, w')
           \<and> length rs = length raw
           \<and> (\<forall>i<length commands. is_text (commands ! i) \<longrightarrow> i < length raw)
           \<and> (\<forall>i<length raw.
                 (i < length commands \<and> is_text (commands ! i) \<longrightarrow>
                    (\<exists>d s. raw ! i = JDict d \<and> map_of d ''output'' = Some (JStr s)
                          \<and> rs ! i = JStr (strip isspace_text s)))
               \<and> (\<not> (i < length commands \<and> is_text (commands ! i)) \<longrightarrow> rs ! i = raw ! i)))"
    unfolding run_commands_split unwrap_iff ..
next
  assume col: "run_commands_collect fetch self commands w = (Inr raw', w')"
  note c = collect_collected[OF col]
  show "raw' = collected self w w'" using c by blast
  from c have "\<forall>x\<in>set (exchanges w w'). \<forall>c\<in>set (submitted self x). format (fst x) = Some (fmt c)"
    by blast
  then show "\<forall>x\<in>set (exchanges w w'). \<forall>c\<in>set (submitted self x).
            (format (fst x) = Some ''text'') = is_text c
          \<and> (format (fst x) = Some ''json'') = is_json c"
    by (auto simp: fmt_def is_text_is_json)
qed

theorem run_commands_text_unwrapped_witness:
  "fst (Eapi_run_commands demo_device (Eapi_init demo_params) demo_commands demo_world)
     = Inr [JStr ''show version'', JDict [(''command'', JStr ''show interfaces | json'')],
            JStr ''show clock'']
   \<and> collected (Eapi_init demo_params) demo_world
        (snd (Eapi_run_commands demo_device (Eapi_init demo_params) demo_commands demo_world))
     = [JDict [(''output'', JStr (CHR 0xA0 # '' show version\<newline>''))],
        JDict [(''command'', JStr ''show interfaces | json'')],
        JDict [(''output'', JStr (CHR 0xA0 # '' show clock\<newline>''))]]
   \<and> is_text (demo_commands ! 0) \<and> is_json (demo_commands ! 1) \<and> is_text (demo_commands ! 2)
   \<and> map (\<lambda>x. format (fst x)) (exchanges demo_world
        (snd (Eapi_run_commands demo_device (Eapi_init demo_params) demo_commands demo_world)))
      = [Some ''text'', Some ''json'', Some ''text'']"
proof -
  let ?run = "Eapi_run_commands demo_device (Eapi_init demo_params) demo_commands demo_world"
  let ?rs = "[JStr ''show version'', JDict [(''command'', JStr ''show interfaces | json'')],
              JStr ''show clock'']"
  let ?raw = "[JDict [(''output'', JStr (CHR 0xA0 # '' show version\<newline>''))],
               JDict [(''command'', JStr ''show interfaces | json'')],
               JDict [(''output'', JStr (CHR 0xA0 # '' show clock\<newline>''))]]"
  let ?S = "Eapi_init demo_params"
  note t = run_commands_text_unwrapped
             [of demo_device ?S demo_commands demo_world ?rs "snd ?run" ?raw]
  have "?run = (Inr ?rs, snd ?run)"
  proof (rule t[THEN conjunct1, THEN iffD2], intro exI[of _ ?raw] conjI)
    show "run_commands_collect demo_device ?S demo_commands demo_world = (Inr ?raw, snd ?run)"
      by (rule demo_collect)
    show "length ?rs = length ?raw" by simp
    show "\<forall>i<length demo_commands. is_text (demo_commands ! i) \<longrightarrow> i < length ?raw"
      by (simp add: demo_commands_def)
    show "\<forall>i<length ?raw.
             (i < length demo_commands \<and> is_text (demo_commands ! i) \<longrightarrow>
                (\<exists>d s. ?raw ! i = JDict d \<and> map_of d ''output'' = Some (JStr s)
                      \<and> ?rs ! i = JStr (strip isspace_text s)))
           \<and> (\<not> (i < length demo_commands \<and> is_text (demo_commands ! i)) \<longrightarrow> ?rs ! i = ?raw ! i)"
      by (simp add: demo_commands_def All_less_Suc)
  qed
  then have "fst ?run = fst (Inr ?rs, snd ?run)" by (rule arg_cong)
  then have "fst ?run = Inr ?rs" by (simp only: fst_conv)
  moreover from t[THEN conjunct2, THEN mp, OF demo_collect]
  have "?raw = collected ?S demo_world (snd ?run)" by (rule conjunct1)
  then have "collected ?S demo_world (snd ?run) = ?raw" by (rule sym)
  moreover have "is_text (demo_commands ! 0)" "is_json (demo_commands ! 1)"
    "is_text (demo_commands ! 2)"
    by (simp_all add: demo_commands_def)
  moreover have "map (\<lambda>x. format (fst x)) (exchanges demo_world (snd ?run))
      = [Some ''text'', Some ''json'', Some ''text'']"
    unfolding demo_exchanges by (simp add: posted_def request_builder_def)
  ultimately show ?thesis by blast
qed

text \<open>
  Claim C9, as stated, fails: with no enable credential configured (\<open>auth_pass\<close> is None),
  the request still has \<^verbatim>\<open>enable\<close> in front of the submitted command.
\<close>

theorem enable_injected_without_credential:
  "auth_pass demo_params = None
   \<and> map (\<lambda>x. cmds (fst x))
       (exchanges demo_world
         (snd (Eapi_send_request demo_device (Eapi_init demo_params) [''show version'']
                (Some ''text'') demo_world)))
     = [[''enable'', ''show version'']]"
  by (simp add: Eapi_send_request_eq posted_def request_builder_def exchanges_def demo_world_def
        Eapi_init_def demo_params_def truthy_enable_def truthy_str_def)

text \<open>
  Claim C9, amended. Whatever the parameters the adapter was built from, with or without an
  enable credential, \<open>Eapi_send_request\<close> posts one request with \<^verbatim>\<open>enable\<close> in front of the
  submitted commands, and drops the first entry of the result; so a device that answers
  every command of the request gives the caller exactly one entry per submitted command.
\<close>

theorem send_request_enable_always:
  assumes "fetch (dev w) (request_builder (''enable'' # commands) output None) = (rep, d)"
    and "status rep = 200"
    and "payload rep = Decoded (Result rs)"
    and "length rs = Suc (length commands)"
  shows "Eapi_send_request fetch (Eapi_init p) commands output w =
           (Inr (Result (tl rs)),
            \<lparr>dev = d,
             wire = wire w @ [(request_builder (''enable'' # commands) output None, rep)]\<rparr>)
       \<and> length (tl rs) = length commands"
proof -
  have en: "truthy_enable (e_enable (Eapi_init p))"
    by (simp add: Eapi_init_def truthy_enable_def Let_def)
  from assms(4) obtain r rest where rs: "rs = r # rest" by (cases rs) auto
  with assms en show ?thesis
    by (simp add: Eapi_send_request_eq posted_def decode_reply_def)
qed

theorem send_request_enable_always_witness:
  "auth_pass demo_params_enable = Some ''letmein''
   \<and> Eapi_send_request demo_device (Eapi_init demo_params_enable)
       [''show version'', ''show clock''] (Some ''text'') demo_world
     = (Inr (Result [JDict [(''output'', JStr (CHR 0xA0 # '' show version\<newline>''))],
                     JDict [(''output'', JStr (CHR 0xA0 # '' show clock\<newline>''))]]),
        \<lparr>dev = 1,
         wire = [(request_builder [''enable'', ''show version'', ''show clock''] (Some ''text'') None,
                  \<lparr>status = 200, payload = Decoded (Result
                     [JDict [(''output'', JStr (CHR 0xA0 # '' enable\<newline>''))],
                      JDict [(''output'', JStr (CHR 0xA0 # '' show version\<newline>''))],
                      JDict [(''output'', JStr (CHR 0xA0 # '' show clock\<newline>''))]])\<rparr>)]\<rparr>)"
proof -
  let ?rs = "[JDict [(''output'', JStr (CHR 0xA0 # '' enable\<newline>''))],
              JDict [(''output'', JStr (CHR 0xA0 # '' show version\<newline>''))],
              JDict [(''output'', JStr (CHR 0xA0 # '' show clock\<newline>''))]]"
  let ?rep = "\<lparr>status = 200, payload = Decoded (Result ?rs)\<rparr>"
  have f: "demo_device (dev demo_world)
             (request_builder (''enable'' # [''show version'', ''show clock'']) (Some ''text'') None)
           = (?rep, 1)"
    by (simp add: demo_device_def request_builder_def demo_answer_def demo_world_def)
  have "Eapi_send_request demo_device (Eapi_init demo_params_enable)
          [''show version'', ''show clock''] (Some ''text'') demo_world =
           (Inr (Result (tl ?rs)),
            \<lparr>dev = 1,
             wire = wire demo_world
               @ [(request_builder (''enable'' # [''show version'', ''show clock'']) (Some ''text'') None, ?rep)]\<rparr>)
       \<and> length (tl ?rs) = length [''show version'', ''show clock'']"
    by (rule send_request_enable_always [of demo_device demo_world _ _ _ _ _ demo_params_enable, OF f]) simp_all
  then show ?thesis
    by (simp add: demo_world_def demo_params_enable_def demo_params_def)
qed

text \<open>
  Claim C10. A run of \<open>Cli_run_commands\<close> that returns results has sent the commands to
  the shell in order, and the result for every command, whether or not it carries the
  \<^verbatim>\<open>| json\<close> marker, is the value \<^verbatim>\<open>from_json\<close> reads from its output when the output parses,
  and the output stripped of surrounding whitespace (the whitespace of the native string
  type), as a string, when it does not. A run fails only under \<^verbatim>\<open>check_rc\<close>, at the first
  command the shell answers with a return code other than zero, and with its error text.
\<close>

theorem Cli_run_commands_parses_every_output:
  "(Cli_run_commands exec from_json py commands check_rc sh = (Inr rs, sh') \<longrightarrow>
       transcript sh' = transcript sh @ said sh sh'
     \<and> map fst (said sh sh') = map Plain commands
     \<and> rs = map (\<lambda>(c, rc, out, err).
                  case from_json out of
                    Some v \<Rightarrow> v
                  | None \<Rightarrow> JStr (strip (str_isspace py) out))
               (said sh sh'))
   \<and> (Cli_run_commands exec from_json py commands check_rc sh = (Inl e, sh') \<longrightarrow>
       check_rc
     \<and> (\<exists>c rc out err. said sh sh' \<noteq> [] \<and> last (said sh sh') = (c, rc, out, err)
            \<and> rc \<noteq> 0 \<and> e = FailJson [(''msg'', JStr err)]))"
proof (intro conjI impI)
  assume "Cli_run_commands exec from_json py commands check_rc sh = (Inr rs, sh')"
  then have "Cli_run_commands_loop exec from_json py check_rc commands [] sh = (Inr rs, sh')"
    by (simp add: Cli_run_commands_def to_list_def)
  from Cli_loop_Inr[OF this] obtain new where new: "transcript sh' = transcript sh @ new"
    "map fst new = map Plain commands"
    "rs = [] @ map (\<lambda>x. run_commands_decode from_json py (fst (snd (snd x)))) new"
    by blast
  have sd: "said sh sh' = new" using new(1) by (simp add: said_def)
  have fn: "(\<lambda>x. run_commands_decode from_json py (fst (snd (snd x))))
              = (\<lambda>(c, rc, out, err). case from_json out of Some v \<Rightarrow> v
                                     | None \<Rightarrow> JStr (strip (str_isspace py) out))"
    by (auto simp: run_commands_decode_def fun_eq_iff split: option.splits)
  from new(3) have rs: "rs = map (\<lambda>(c, rc, out, err). case from_json out of Some v \<Rightarrow> v
                                     | None \<Rightarrow> JStr (strip (str_isspace py) out)) new"
    unfolding fn by simp
  show "transcript sh' = transcript sh @ said sh sh'" unfolding sd by (rule new(1))
  show "map fst (said sh sh') = map Plain commands" unfolding sd by (rule new(2))
  show "rs = map (\<lambda>(c, rc, out, err).
                  case from_json out of
                    Some v \<Rightarrow> v
                  | None \<Rightarrow> JStr (strip (str_isspace py) out))
               (said sh sh')"
    unfolding sd by (rule rs)
next
  assume "Cli_run_commands exec from_json py commands check_rc sh = (Inl e, sh')"
  then have "Cli_run_commands_loop exec from_json py check_rc commands [] sh = (Inl e, sh')"
    by (simp add: Cli_run_commands_def to_list_def)
  from Cli_loop_Inl[OF this] obtain new c rc out err where
    f: "transcript sh' = transcript sh @ new @ [(c, rc, out, err)]"
    "check_rc" "rc \<noteq> 0" "e = FailJson [(''msg'', JStr err)]"
    by blast
  have sd: "said sh sh' = new @ [(c, rc, out, err)]" using f(1) by (simp add: said_def)
  show check_rc by (rule f(2))
  show "\<exists>c rc out err. said sh sh' \<noteq> [] \<and> last (said sh sh') = (c, rc, out, err)
            \<and> rc \<noteq> 0 \<and> e = FailJson [(''msg'', JStr err)]"
    unfolding sd using f(3,4) by simp
qed

theorem Cli_run_commands_parses_every_output_witness:
  "is_text ''show clock'' \<and> is_json ''show version | json''
   \<and> Cli_run_commands demo_exec demo_from_json Python3 [''show clock'', ''show version | json'']
        True demo_shell
       = (Inr [JNum 42, JStr ''EOS 4.15''],
          \<lparr>sdev = 2,
           transcript = [(Plain ''show clock'', 0, ''42'', ''''),
                         (Plain ''show version | json'', 0,
                          CHR 0xA0 # '' EOS 4.15\<newline>'', '''')]\<rparr>)
   \<and> map fst (said demo_shell
        (snd (Cli_run_commands demo_exec demo_from_json Python3
               [''show clock'', ''show version | json''] True demo_shell)))
       = [Plain ''show clock'', Plain ''show version | json'']
   \<and> fst (Cli_run_commands demo_exec demo_from_json Python2 [''show version | json'']
            True demo_shell)
       = Inr [JStr (CHR 0xA0 # '' EOS 4.15'')]
   \<and> fst (Cli_run_commands demo_exec demo_from_json Python3
            [''show clock'', ''bogus'', ''show clock''] True demo_shell)
       = Inl (FailJson [(''msg'', JStr ''% Invalid input'')])
   \<and> said demo_shell
        (snd (Cli_run_commands demo_exec demo_from_json Python3
               [''show clock'', ''bogus'', ''show clock''] True demo_shell)) \<noteq> []
   \<and> last (said demo_shell
        (snd (Cli_run_commands demo_exec demo_from_json Python3
               [''show clock'', ''bogus'', ''show clock''] True demo_shell)))
       = (Plain ''bogus'', 1, '''', ''% Invalid input'')"
proof -
  let ?run = "Cli_run_commands demo_exec demo_from_json Python3
                [''show clock'', ''show version | json''] True demo_shell"
  let ?bad = "Cli_run_commands demo_exec demo_from_json Python3
                [''show clock'', ''bogus'', ''show clock''] True demo_shell"
  have r: "?run = (Inr [JNum 42, JStr ''EOS 4.15''], snd ?run)"
    by (simp add: demo_shell_run)
  have b: "?bad = (Inl (FailJson [(''msg'', JStr ''% Invalid input'')]), snd ?bad)"
    by (simp add: demo_shell_fail)
  note t = Cli_run_commands_parses_every_output
             [of demo_exec demo_from_json Python3 "[''show clock'', ''show version | json'']"
                 True demo_shell "[JNum 42, JStr ''EOS 4.15'']" "snd ?run",
              THEN conjunct1, THEN mp, OF r]
  note u = Cli_run_commands_parses_every_output
             [of demo_exec demo_from_json Python3 "[''show clock'', ''bogus'', ''show clock'']"
                 True demo_shell _ "snd ?bad" "FailJson [(''msg'', JStr ''% Invalid input'')]",
              THEN conjunct2, THEN mp, OF b]
  have "map fst (said demo_shell (snd ?run)) = [Plain ''show clock'', Plain ''show version | json'']"
    using t[THEN conjunct2, THEN conjunct1] by simp
  moreover note demo_shell_run
  moreover have "fst (Cli_run_commands demo_exec demo_from_json Python2 [''show version | json'']
            True demo_shell) = Inr [JStr (CHR 0xA0 # '' EOS 4.15'')]"
    by (simp add: demo_shell_run2)
  moreover have "fst ?bad = Inl (FailJson [(''msg'', JStr ''% Invalid input'')])"
    by (simp add: demo_shell_fail)
  moreover from u[THEN conjunct2] have "said demo_shell (snd ?bad) \<noteq> []" by blast
  moreover have "last (said demo_shell (snd ?bad)) = (Plain ''bogus'', 1, '''', ''% Invalid input'')"
    unfolding demo_shell_fail by (simp add: said_def demo_shell_def)
  moreover have "is_text ''show clock''" "is_json ''show version | json''"
    by (simp_all add: is_text_def is_json_def endswith_def)
  ultimately show ?thesis by blast
qed

text \<open>
  Claim C8, on the code as it is. On an adapter built by \<open>Eapi_init\<close>, every call of
  \<open>Eapi_get_config\<close> raises AttributeError for \<^verbatim>\<open>_device_configs\<close>, and in the namespace of
  the module every call of \<open>Cli_get_config\<close> raises NameError for \<^verbatim>\<open>_DEVICE_CONFIGS\<close>:
  nothing is fetched, nothing is cached, and no configuration text is returned.
\<close>

theorem get_config_cache_unreachable:
  "Eapi_get_config fetch py repr (Eapi_init p) flags w
     = (Inl (AttributeError ''_device_configs''), Eapi_init p, w)
   \<and> Cli_get_config exec py module_namespace flags sh
     = (Inl (NameError ''_DEVICE_CONFIGS''), module_namespace, sh)"
  by (simp add: Eapi_get_config_def Cli_get_config_def Eapi_init_def Let_def load_name_def
        module_namespace_def)

text \<open>
  Claim C2, on the code as it is. In the namespace of the module every call of
  \<open>Eapi_load_config\<close> and of \<open>Cli_load_config\<close> raises NameError at its first statement:
  nothing is sent to the device, so no abort either, and the failure carries neither a
  message of the device nor the commands.
\<close>

theorem load_config_sends_no_abort:
  "fst (Eapi_load_config fetch module_namespace stamp self config commit replace w)
     = Inl (NameError ''supports_sessions'')
   \<and> exchanges w (snd (snd (Eapi_load_config fetch module_namespace stamp self config commit replace w))) = []
   \<and> fst (Cli_load_config exec py module_namespace use_session stamp commands commit replace sh)
     = Inl (NameError ''check_authorization'')
   \<and> said sh (snd (Cli_load_config exec py module_namespace use_session stamp commands commit replace sh)) = []"
  by (simp add: load_config_raises_NameError exchanges_def said_def)

text \<open>
  Claim C3, on the code as it is. Without \<^verbatim>\<open>commit\<close>, \<open>Eapi_load_config\<close> and
  \<open>Cli_load_config\<close> return no result in the namespace of the module, hence no diff: the
  outcome is the NameError.
\<close>

theorem load_config_returns_no_diff:
  "fst (Eapi_load_config fetch module_namespace stamp self config False replace w)
     = Inl (NameError ''supports_sessions'')
   \<and> fst (Cli_load_config exec py module_namespace use_session stamp commands False replace sh)
     = Inl (NameError ''check_authorization'')"
  by (simp add: load_config_raises_NameError)

text \<open>
  Claim C4, on the code as it is. With an adapter that has recorded that the device has no
  sessions, and with sessions switched off by configuration, \<open>Eapi_load_config\<close> and
  \<open>Cli_load_config\<close> raise NameError in the namespace of the module and leave the adapter
  and the world as they were: \<^verbatim>\<open>configure\<close> is not run and its result is not returned.
\<close>

theorem load_config_never_delegates:
  "Eapi_load_config fetch module_namespace stamp (self\<lparr>e_session_support := Some False\<rparr>)
       config commit replace w
     = (Inl (NameError ''supports_sessions''), self\<lparr>e_session_support := Some False\<rparr>, w)
   \<and> Cli_load_config exec py module_namespace False stamp commands commit replace sh
     = (Inl (NameError ''check_authorization''), sh)"
  by (simp add: load_config_raises_NameError)

end
